theory Spec2Isabelle
  imports Complex_Main "HOL-Library.AList"
begin

section \<open>Python values, exceptions and the graph\<close>

text \<open>
  The repository is Python over NetworkX multigraphs whose node and edge attributes are
  untyped dictionaries (OSM tags). An attribute value is one of the values OSMnx stores:
  \<open>None\<close>, a boolean, a number, a string, a list, or a line geometry. Python floats and
  ints are both read as real numbers: rounding, infinities and NaN are outside this model.
\<close>

datatype pyval =
    PNone
  | PBool bool
  | PNum real
  | PStr string
  | PList "pyval list"
  | PGeom "(real \<times> real) list"

datatype classe_excecao =
    KeyError | TypeError | ValueError | NetworkXError | NetworkXNoPath
  | ImportError | StatisticsError | AttributeError | OutraExcecao

datatype excecao = Exc classe_excecao string

fun mensagem :: "excecao \<Rightarrow> string" where
  "mensagem (Exc c m) = m"

fun classe :: "excecao \<Rightarrow> classe_excecao" where
  "classe (Exc c m) = c"

type_synonym node = int
type_synonym attrs = "string \<rightharpoonup> pyval"
type_synonym edge = "node \<times> node \<times> int"

text \<open>
  A \<open>MultiDiGraph\<close>: the node dictionary and the edge dictionary (keyed by
  \<open>(u, v, key)\<close>), both in insertion order, which is the order of iteration.
  A lookup reads the first entry of a key, as \<open>map_of\<close> does.
\<close>

record grafo =
  nos :: "(node \<times> attrs) list"
  arestas :: "(edge \<times> attrs) list"

text \<open>\<open>mobility_profiles.MobilityProfile\<close>, by the fields the weighting reads.\<close>

record MobilityProfile =
  nome :: string
  requer_acessibilidade :: bool
  prefere_faixas :: bool
  penalizacao_sem_rampa :: real
  penalizacao_escadas :: real
  penalizacao_inclinacao :: real
  penalizacao_sem_faixa :: real

text \<open>\<open>d.get(k, default)\<close>.\<close>

definition py_get :: "attrs \<Rightarrow> string \<Rightarrow> pyval \<Rightarrow> pyval" where
  "py_get d k dflt = (case d k of None \<Rightarrow> dflt | Some x \<Rightarrow> x)"

text \<open>Truth value of an object under \<open>if x:\<close>.\<close>

fun py_truthy :: "pyval \<Rightarrow> bool" where
  "py_truthy PNone = False"
| "py_truthy (PBool b) = b"
| "py_truthy (PNum x) = (x \<noteq> 0)"
| "py_truthy (PStr s) = (s \<noteq> [])"
| "py_truthy (PList l) = (l \<noteq> [])"
| "py_truthy (PGeom cs) = (cs \<noteq> [])"

text \<open>
  \<open>float(x)\<close> for a value that is not a string: \<open>None\<close> stands for the
  \<open>TypeError\<close> the call raises. On a string, \<open>float\<close> is Python's own parser; the
  functions below take it as the parameter \<open>flt\<close> (\<open>None\<close> for \<open>ValueError\<close>).
\<close>

fun py_float :: "pyval \<Rightarrow> real option" where
  "py_float (PNum x) = Some x"
| "py_float (PBool b) = Some (if b then 1 else 0)"
| "py_float x = None"

definition py_isspace :: "char \<Rightarrow> bool" where
  "py_isspace c = (c \<in> set [CHR '' '', CHR 0x09, CHR 0x0A, CHR 0x0B, CHR 0x0C, CHR 0x0D,
                              CHR 0x1C, CHR 0x1D, CHR 0x1E, CHR 0x1F])"

text \<open>\<open>s.strip()\<close> and \<open>s.replace(c, '')\<close> for a one-character \<open>c\<close>.\<close>

definition py_strip :: "string \<Rightarrow> string" where
  "py_strip s = rev (dropWhile py_isspace (rev (dropWhile py_isspace s)))"

definition py_remove_char :: "char \<Rightarrow> string \<Rightarrow> string" where
  "py_remove_char c s = filter (\<lambda>x. x \<noteq> c) s"

text \<open>\<open>sub in s\<close> on strings: \<open>sub\<close> occurs in \<open>s\<close> as a contiguous substring.\<close>

fun str_contem :: "string \<Rightarrow> string \<Rightarrow> bool" where
  "str_contem sub [] = (sub = [])"
| "str_contem sub (c # cs) = (take (length sub) (c # cs) = sub \<or> str_contem sub cs)"

text \<open>
  \<open>sub in x\<close> for a string \<open>sub\<close>: substring test on a string, membership on a list,
  \<open>TypeError\<close> on a value that is not iterable.
\<close>

fun py_in :: "string \<Rightarrow> pyval \<Rightarrow> excecao + bool" where
  "py_in sub (PStr s) = Inr (str_contem sub s)"
| "py_in sub (PList l) = Inr (PStr sub \<in> set l)"
| "py_in sub x = Inl (Exc TypeError ''argument is not iterable'')"

text \<open>\<open>x * f\<close> for a float \<open>f\<close>: defined on numbers only.\<close>

fun py_mul :: "pyval \<Rightarrow> real \<Rightarrow> excecao + real" where
  "py_mul (PNum x) f = Inr (x * f)"
| "py_mul (PBool b) f = Inr ((if b then 1 else 0) * f)"
| "py_mul x f = Inl (Exc TypeError ''unsupported operand type(s) for *'')"

text \<open>\<open>G[u][v][key]\<close>, and one attribute of an edge.\<close>

definition dados_aresta :: "grafo \<Rightarrow> edge \<Rightarrow> attrs option" where
  "dados_aresta G e = map_of (arestas G) e"

definition attr_aresta :: "grafo \<Rightarrow> edge \<Rightarrow> string \<Rightarrow> pyval option" where
  "attr_aresta G e k = (case dados_aresta G e of None \<Rightarrow> None | Some d \<Rightarrow> d k)"

text \<open>\<open>G[u][v][key][k] = x\<close>.\<close>

definition set_attr_aresta :: "grafo \<Rightarrow> edge \<Rightarrow> string \<Rightarrow> pyval \<Rightarrow> grafo" where
  "set_attr_aresta G e k x = G\<lparr>arestas := AList.map_entry e (\<lambda>d. d(k \<mapsto> x)) (arestas G)\<rparr>"

section \<open>graph\_weighting.py\<close>

definition eh_faixa :: "attrs \<Rightarrow> bool" where
  "eh_faixa data =
     (if py_get data ''crossing'' PNone \<in>
           set [PStr ''yes'', PStr ''marked'', PStr ''zebra'', PStr ''traffic_signals'']
      then True
      else if py_get data ''highway'' PNone = PStr ''crossing'' then True
      else False)"

fun faixas_laco :: "(node \<times> attrs) list \<Rightarrow> node set \<Rightarrow> node set" where
  "faixas_laco [] faixas = faixas"
| "faixas_laco ((node_id, data) # resto) faixas =
     faixas_laco resto (if eh_faixa data then insert node_id faixas else faixas)"

definition identificar_faixas_pedestres :: "grafo \<Rightarrow> node set" where
  "identificar_faixas_pedestres G = faixas_laco (nos G) {}"

text \<open>
  The steps of \<open>calcular_peso_aresta\<close>, in the order of the source; each takes the
  running \<open>fator_penalizacao\<close> and returns the updated one.
\<close>

definition passo_wheelchair :: "attrs \<Rightarrow> MobilityProfile \<Rightarrow> real \<Rightarrow> real" where
  "passo_wheelchair edge_data perfil fator =
     (let wheelchair_tag = py_get edge_data ''wheelchair'' PNone in
      if wheelchair_tag = PStr ''no'' \<and> requer_acessibilidade perfil
      then fator * penalizacao_sem_rampa perfil
      else if wheelchair_tag = PStr ''limited''
      then fator * (penalizacao_sem_rampa perfil * 0.5)
      else fator)"

definition passo_escadas :: "attrs \<Rightarrow> MobilityProfile \<Rightarrow> real \<Rightarrow> real" where
  "passo_escadas edge_data perfil fator =
     (let highway_type = py_get edge_data ''highway'' (PStr '''') in
      if highway_type = PStr ''steps'' then fator * penalizacao_escadas perfil else fator)"

text \<open>
  The body of the two \<open>try\<close> blocks: the number read from a tag, \<open>None\<close> when
  \<open>float\<close> raises \<open>ValueError\<close> or \<open>TypeError\<close> (both are caught and ignored).
\<close>

definition valor_numerico :: "(string \<Rightarrow> real option) \<Rightarrow> char \<Rightarrow> pyval \<Rightarrow> real option" where
  "valor_numerico flt unidade x =
     (case x of
        PStr s \<Rightarrow> flt (py_strip (py_remove_char unidade s))
      | _ \<Rightarrow> py_float x)"

definition passo_inclinacao ::
  "(string \<Rightarrow> real option) \<Rightarrow> attrs \<Rightarrow> MobilityProfile \<Rightarrow> real \<Rightarrow> real" where
  "passo_inclinacao flt edge_data perfil fator =
     (let incline = py_get edge_data ''incline'' PNone in
      if py_truthy incline then
        (case valor_numerico flt (CHR ''%'') incline of
           None \<Rightarrow> fator
         | Some x \<Rightarrow>
             (let incline_valor = \<bar>x\<bar> in
              if incline_valor > 5.0 then fator * penalizacao_inclinacao perfil else fator))
      else fator)"

definition passo_rampa :: "bool \<Rightarrow> attrs \<Rightarrow> MobilityProfile \<Rightarrow> real \<Rightarrow> real" where
  "passo_rampa ramp_em_highway edge_data perfil fator =
     (if ramp_em_highway \<or> py_get edge_data ''ramp'' PNone = PStr ''yes''
      then (if requer_acessibilidade perfil then fator * 0.7 else fator)
      else fator)"

definition passo_faixas :: "node \<Rightarrow> node \<Rightarrow> node set \<Rightarrow> MobilityProfile \<Rightarrow> real \<Rightarrow> real" where
  "passo_faixas u v faixas_pedestres perfil fator =
     (if prefere_faixas perfil then
        (let tem_faixa_inicio = u \<in> faixas_pedestres;
             tem_faixa_fim = v \<in> faixas_pedestres in
         if \<not> tem_faixa_inicio \<and> \<not> tem_faixa_fim
         then fator * penalizacao_sem_faixa perfil
         else fator * 0.8)
      else fator)"

definition passo_superficie :: "attrs \<Rightarrow> MobilityProfile \<Rightarrow> real \<Rightarrow> real" where
  "passo_superficie edge_data perfil fator =
     (let surface = py_get edge_data ''surface'' (PStr '''') in
      if requer_acessibilidade perfil then
        (if surface \<in> set [PStr ''unpaved'', PStr ''gravel'', PStr ''dirt'', PStr ''grass'',
                            PStr ''sand'']
         then fator * 2.0
         else if surface \<in> set [PStr ''paved'', PStr ''asphalt'', PStr ''concrete'']
         then fator * 0.9
         else fator)
      else fator)"

definition passo_largura ::
  "(string \<Rightarrow> real option) \<Rightarrow> attrs \<Rightarrow> MobilityProfile \<Rightarrow> real \<Rightarrow> real" where
  "passo_largura flt edge_data perfil fator =
     (let width = py_get edge_data ''width'' PNone in
      if py_truthy width \<and> requer_acessibilidade perfil then
        (case valor_numerico flt (CHR ''m'') width of
           None \<Rightarrow> fator
         | Some width_valor \<Rightarrow> if width_valor < 1.5 then fator * 1.5 else fator)
      else fator)"

text \<open>
  \<open>calcular_peso_aresta(G, u, v, key, perfil, faixas_pedestres)\<close>. It raises
  \<open>KeyError\<close> when the edge is not in the graph and \<open>TypeError\<close> when the highway tag is
  not iterable or the length is not a number; nothing in it assigns to the graph.
\<close>

definition calcular_peso_aresta ::
  "(string \<Rightarrow> real option) \<Rightarrow> grafo \<Rightarrow> node \<Rightarrow> node \<Rightarrow> int \<Rightarrow> MobilityProfile \<Rightarrow> node set
     \<Rightarrow> excecao + real" where
  "calcular_peso_aresta flt G u v key perfil faixas_pedestres =
     (case dados_aresta G (u, v, key) of
        None \<Rightarrow> Inl (Exc KeyError ''edge'')
      | Some edge_data \<Rightarrow>
          (let peso_base = py_get edge_data ''length'' (PNum 1.0);
               fator1 = passo_wheelchair edge_data perfil 1.0;
               fator2 = passo_escadas edge_data perfil fator1;
               fator3 = passo_inclinacao flt edge_data perfil fator2
           in case py_in ''ramp'' (py_get edge_data ''highway'' (PStr '''')) of
                Inl e \<Rightarrow> Inl e
              | Inr ramp_em_highway \<Rightarrow>
                  (let fator4 = passo_rampa ramp_em_highway edge_data perfil fator3;
                       fator5 = passo_faixas u v faixas_pedestres perfil fator4;
                       fator6 = passo_superficie edge_data perfil fator5;
                       fator7 = passo_largura flt edge_data perfil fator6
                   in py_mul peso_base fator7)))"

text \<open>
  One iteration of the loop of \<open>ponderar_grafo\<close> over \<open>G.edges(keys=True)\<close>, and the
  loop. The graph is mutated in place, so the state reached is returned together with the
  exception that ended the loop, if one did. The counter \<open>arestas_penalizadas\<close> is only
  shown in the debug message.
\<close>

definition ponderar_aresta ::
  "(string \<Rightarrow> real option) \<Rightarrow> MobilityProfile \<Rightarrow> node set \<Rightarrow> edge \<Rightarrow> grafo \<Rightarrow> nat
     \<Rightarrow> grafo \<times> nat \<times> excecao option" where
  "ponderar_aresta flt perfil faixas e G arestas_penalizadas =
     (case e of (u, v, key) \<Rightarrow>
      (case calcular_peso_aresta flt G u v key perfil faixas of
        Inl ex \<Rightarrow> (G, arestas_penalizadas, Some ex)
      | Inr peso_customizado \<Rightarrow>
          (let G1 = (if attr_aresta G (u, v, key) ''length_original'' = None
                     then set_attr_aresta G (u, v, key) ''length_original''
                            (case attr_aresta G (u, v, key) ''length'' of
                               None \<Rightarrow> PNum 1.0 | Some x \<Rightarrow> x)
                     else G);
               G2 = set_attr_aresta G1 (u, v, key) ''length'' (PNum peso_customizado)
           in case attr_aresta G2 (u, v, key) ''length_original'' of
                None \<Rightarrow> (G2, arestas_penalizadas, Some (Exc KeyError ''length_original''))
              | Some original \<Rightarrow>
                  (case py_mul original 1.5 of
                     Inl ex \<Rightarrow> (G2, arestas_penalizadas, Some ex)
                   | Inr limite \<Rightarrow>
                       (G2,
                        if peso_customizado > limite then arestas_penalizadas + 1
                        else arestas_penalizadas,
                        None)))))"

fun ponderar_laco ::
  "(string \<Rightarrow> real option) \<Rightarrow> MobilityProfile \<Rightarrow> node set \<Rightarrow> edge list \<Rightarrow> grafo \<Rightarrow> nat
     \<Rightarrow> grafo \<times> nat \<times> excecao option" where
  "ponderar_laco flt perfil faixas [] G arestas_penalizadas = (G, arestas_penalizadas, None)"
| "ponderar_laco flt perfil faixas (e # resto) G arestas_penalizadas =
     (case ponderar_aresta flt perfil faixas e G arestas_penalizadas of
        (G2, n2, Some ex) \<Rightarrow> (G2, n2, Some ex)
      | (G2, n2, None) \<Rightarrow> ponderar_laco flt perfil faixas resto G2 n2)"

definition ponderar_grafo ::
  "(string \<Rightarrow> real option) \<Rightarrow> grafo \<Rightarrow> MobilityProfile \<Rightarrow> grafo \<times> excecao option" where
  "ponderar_grafo flt G perfil =
     (let faixas_pedestres = identificar_faixas_pedestres G;
          (G', arestas_penalizadas, erro) =
             ponderar_laco flt perfil faixas_pedestres (map fst (arestas G)) G 0
      in (G', erro))"

definition restaurar_aresta :: "attrs \<Rightarrow> attrs" where
  "restaurar_aresta d =
     (case d ''length_original'' of None \<Rightarrow> d | Some original \<Rightarrow> d(''length'' \<mapsto> original))"

fun restaurar_laco :: "edge list \<Rightarrow> grafo \<Rightarrow> grafo" where
  "restaurar_laco [] G = G"
| "restaurar_laco (e # resto) G =
     restaurar_laco resto (G\<lparr>arestas := AList.map_entry e restaurar_aresta (arestas G)\<rparr>)"

definition restaurar_pesos_originais :: "grafo \<Rightarrow> grafo" where
  "restaurar_pesos_originais G = restaurar_laco (map fst (arestas G)) G"

text \<open>The current cost of an edge as every reader takes it: \<open>get('length', 1.0)\<close>.\<close>

definition custo_aresta :: "grafo \<Rightarrow> edge \<Rightarrow> pyval option" where
  "custo_aresta G e =
     (case dados_aresta G e of None \<Rightarrow> None | Some d \<Rightarrow> Some (py_get d ''length'' (PNum 1.0)))"

section \<open>benchmark\_algoritmos.py: distance categories\<close>

text \<open>The category names are UTF-8 strings: the second letter of the middle one is
  U+00E9, two bytes.\<close>

definition curta :: string where "curta = ''curta''"
definition media :: string where "media = ''m'' @ [CHR 0xC3, CHR 0xA9] @ ''dia''"
definition longa :: string where "longa = ''longa''"

definition categorizar_distancia :: "real \<Rightarrow> string" where
  "categorizar_distancia dist_metros =
     (if dist_metros < 200 then curta
      else if dist_metros < 500 then media
      else longa)"

section \<open>The edge cost as a product of independent factors\<close>

text \<open>
  The cost of an edge as the specification words it: the base length times one factor
  per rule, each factor read off the edge's tags and the profile alone. These definitions
  follow the specification's list, not the code; the theorems below compare them with
  \<open>calcular_peso_aresta\<close>.
\<close>

definition fator_wheelchair :: "attrs \<Rightarrow> MobilityProfile \<Rightarrow> real" where
  "fator_wheelchair edge_data perfil =
     (if py_get edge_data ''wheelchair'' PNone = PStr ''no'' \<and> requer_acessibilidade perfil
      then penalizacao_sem_rampa perfil
      else if py_get edge_data ''wheelchair'' PNone = PStr ''limited''
      then penalizacao_sem_rampa perfil / 2
      else 1)"

definition fator_escadas :: "attrs \<Rightarrow> MobilityProfile \<Rightarrow> real" where
  "fator_escadas edge_data perfil =
     (if py_get edge_data ''highway'' (PStr '''') = PStr ''steps''
      then penalizacao_escadas perfil else 1)"

definition inclinacao_numerica :: "(string \<Rightarrow> real option) \<Rightarrow> attrs \<Rightarrow> real option" where
  "inclinacao_numerica flt edge_data =
     (if py_truthy (py_get edge_data ''incline'' PNone)
      then valor_numerico flt (CHR ''%'') (py_get edge_data ''incline'' PNone)
      else None)"

definition fator_inclinacao ::
  "(string \<Rightarrow> real option) \<Rightarrow> attrs \<Rightarrow> MobilityProfile \<Rightarrow> real" where
  "fator_inclinacao flt edge_data perfil =
     (case inclinacao_numerica flt edge_data of
        None \<Rightarrow> 1
      | Some x \<Rightarrow> if \<bar>x\<bar> > 5 then penalizacao_inclinacao perfil else 1)"

definition eh_rampa :: "attrs \<Rightarrow> bool" where
  "eh_rampa edge_data =
     (py_in ''ramp'' (py_get edge_data ''highway'' (PStr '''')) = Inr True
      \<or> py_get edge_data ''ramp'' PNone = PStr ''yes'')"

definition fator_rampa :: "attrs \<Rightarrow> MobilityProfile \<Rightarrow> real" where
  "fator_rampa edge_data perfil =
     (if eh_rampa edge_data \<and> requer_acessibilidade perfil then 0.7 else 1)"

definition fator_sem_faixa :: "node \<Rightarrow> node \<Rightarrow> node set \<Rightarrow> MobilityProfile \<Rightarrow> real" where
  "fator_sem_faixa u v faixas perfil =
     (if prefere_faixas perfil \<and> u \<notin> faixas \<and> v \<notin> faixas
      then penalizacao_sem_faixa perfil else 1)"

definition fator_faixas :: "node \<Rightarrow> node \<Rightarrow> node set \<Rightarrow> MobilityProfile \<Rightarrow> real" where
  "fator_faixas u v faixas perfil =
     (if prefere_faixas perfil
      then (if u \<notin> faixas \<and> v \<notin> faixas then penalizacao_sem_faixa perfil else 0.8)
      else 1)"

definition fator_superficie :: "attrs \<Rightarrow> MobilityProfile \<Rightarrow> real" where
  "fator_superficie edge_data perfil =
     (if \<not> requer_acessibilidade perfil then 1
      else if py_get edge_data ''surface'' (PStr '''')
                \<in> {PStr ''unpaved'', PStr ''gravel'', PStr ''dirt'', PStr ''grass'', PStr ''sand''}
      then 2
      else if py_get edge_data ''surface'' (PStr '''')
                \<in> {PStr ''paved'', PStr ''asphalt'', PStr ''concrete''}
      then 0.9
      else 1)"

definition largura_numerica :: "(string \<Rightarrow> real option) \<Rightarrow> attrs \<Rightarrow> real option" where
  "largura_numerica flt edge_data =
     (if py_truthy (py_get edge_data ''width'' PNone)
      then valor_numerico flt (CHR ''m'') (py_get edge_data ''width'' PNone)
      else None)"

definition fator_largura ::
  "(string \<Rightarrow> real option) \<Rightarrow> attrs \<Rightarrow> MobilityProfile \<Rightarrow> real" where
  "fator_largura flt edge_data perfil =
     (case largura_numerica flt edge_data of
        None \<Rightarrow> 1
      | Some w \<Rightarrow> if requer_acessibilidade perfil \<and> w < 1.5 then 1.5 else 1)"

definition peso_cinco_passos ::
  "(string \<Rightarrow> real option) \<Rightarrow> attrs \<Rightarrow> node \<Rightarrow> node \<Rightarrow> MobilityProfile \<Rightarrow> node set \<Rightarrow> real \<Rightarrow> real" where
  "peso_cinco_passos flt edge_data u v perfil faixas base =
     base * (1.0 * fator_wheelchair edge_data perfil * fator_escadas edge_data perfil
               * fator_inclinacao flt edge_data perfil * fator_rampa edge_data perfil
               * fator_sem_faixa u v faixas perfil)"

definition peso_sete_passos ::
  "(string \<Rightarrow> real option) \<Rightarrow> attrs \<Rightarrow> node \<Rightarrow> node \<Rightarrow> MobilityProfile \<Rightarrow> node set \<Rightarrow> real \<Rightarrow> real" where
  "peso_sete_passos flt edge_data u v perfil faixas base =
     base * (1.0 * fator_wheelchair edge_data perfil * fator_escadas edge_data perfil
               * fator_inclinacao flt edge_data perfil * fator_rampa edge_data perfil
               * fator_faixas u v faixas perfil * fator_superficie edge_data perfil
               * fator_largura flt edge_data perfil)"

section \<open>benchmark\_algoritmos.py: counting the explored nodes\<close>

text \<open>
  A float that may be \<open>float('inf')\<close>, the start value of \<open>peso_minimo\<close>.
\<close>

datatype pyfloat = Fin real | Inf

fun pf_less :: "pyfloat \<Rightarrow> pyfloat \<Rightarrow> bool" where
  "pf_less (Fin a) (Fin b) = (a < b)"
| "pf_less (Fin a) Inf = True"
| "pf_less Inf y = False"

fun pf_add :: "pyfloat \<Rightarrow> pyfloat \<Rightarrow> pyfloat" where
  "pf_add (Fin a) (Fin b) = Fin (a + b)"
| "pf_add x y = Inf"

text \<open>
  The \<open>heapq\<close> list of pairs \<open>(priority, node)\<close>. \<open>heappop\<close> returns the least pair in
  the order of Python tuples (the priorities first, the node identifiers on a tie); pairs
  that compare equal are the same pair, so the heap is kept as a plain list:
  \<open>heappush\<close> appends and \<open>heappop\<close> removes one occurrence of the least pair.
\<close>

type_synonym heap = "(pyfloat \<times> node) list"

definition tupla_menor :: "pyfloat \<times> node \<Rightarrow> pyfloat \<times> node \<Rightarrow> bool" where
  "tupla_menor x y = (if fst x = fst y then snd x < snd y else pf_less (fst x) (fst y))"

fun heap_menor :: "pyfloat \<times> node \<Rightarrow> heap \<Rightarrow> pyfloat \<times> node" where
  "heap_menor x [] = x"
| "heap_menor x (y # ys) = heap_menor (if tupla_menor y x then y else x) ys"

text \<open>
  The sets \<open>explorados\<close> and \<open>visitados\<close> always hold the same nodes. \<open>explorados\<close>,
  whose \<open>len\<close> is returned, is kept as the list of its elements in the order they were
  added (\<open>add\<close> appends a node that is not in it yet), so that its length is \<open>len\<close> and
  the order of settling can be stated.
\<close>

definition set_add :: "node \<Rightarrow> node list \<Rightarrow> node list" where
  "set_add u xs = (if u \<in> set xs then xs else xs @ [u])"

text \<open>
  \<open>G.neighbors(u)\<close> (the successors, each once, \<open>NetworkXError\<close> for a node that is
  not in the graph) and the attribute dictionaries of \<open>G[u][v]\<close>, one per key.
\<close>

definition vizinhos :: "grafo \<Rightarrow> node \<Rightarrow> excecao + node list" where
  "vizinhos G u =
     (if u \<in> set (map fst (nos G))
      then Inr (remdups (map (\<lambda>((a, b, k), d). b) (filter (\<lambda>((a, b, k), d). a = u) (arestas G))))
      else Inl (Exc NetworkXError ''The node is not in the digraph.''))"

definition dados_entre :: "grafo \<Rightarrow> node \<Rightarrow> node \<Rightarrow> attrs list" where
  "dados_entre G u v = map snd (filter (\<lambda>((a, b, k), d). a = u \<and> b = v) (arestas G))"

text \<open>
  The loop \<open>for key in G[u][v]\<close>: the least 'length' (1.0 when absent) of the parallel
  edges; comparing a length that is not a number raises \<open>TypeError\<close>.
\<close>

fun peso_minimo_laco :: "attrs list \<Rightarrow> pyfloat \<Rightarrow> excecao + pyfloat" where
  "peso_minimo_laco [] peso_minimo = Inr peso_minimo"
| "peso_minimo_laco (d # ds) peso_minimo =
     (case py_float (py_get d ''length'' (PNum 1.0)) of
        None \<Rightarrow> Inl (Exc TypeError ''< not supported'')
      | Some peso \<Rightarrow>
          peso_minimo_laco ds (if pf_less (Fin peso) peso_minimo then Fin peso else peso_minimo))"

text \<open>
  The loop \<open>for v in G.neighbors(u)\<close> of \<open>contar_nos_dijkstra\<close>. The dictionary
  \<open>dist\<close> of the source is named \<open>distancias\<close> here.
\<close>

fun relaxar_dijkstra ::
  "grafo \<Rightarrow> node \<Rightarrow> pyfloat \<Rightarrow> node set \<Rightarrow> node list \<Rightarrow> (node \<rightharpoonup> pyfloat) \<Rightarrow> heap
     \<Rightarrow> excecao + ((node \<rightharpoonup> pyfloat) \<times> heap)" where
  "relaxar_dijkstra G u d visitados [] distancias heap = Inr (distancias, heap)"
| "relaxar_dijkstra G u d visitados (v # vs) distancias heap =
     (if v \<notin> visitados then
        (case peso_minimo_laco (dados_entre G u v) Inf of
           Inl e \<Rightarrow> Inl e
         | Inr peso_minimo \<Rightarrow>
             (let nova_dist = pf_add d peso_minimo in
              if (case distancias v of None \<Rightarrow> True | Some dv \<Rightarrow> pf_less nova_dist dv)
              then relaxar_dijkstra G u d visitados vs (distancias(v \<mapsto> nova_dist)) (heap @ [(nova_dist, v)])
              else relaxar_dijkstra G u d visitados vs distancias heap))
      else relaxar_dijkstra G u d visitados vs distancias heap)"

text \<open>
  The loop \<open>while heap\<close>. It ends: an iteration either drops a stale entry from the heap
  or settles a node of the graph that was not settled before.
\<close>

lemma heap_menor_in: "heap_menor x xs \<in> set (x # xs)"
  by (induction xs arbitrary: x) auto

function dijkstra_laco ::
  "grafo \<Rightarrow> node \<Rightarrow> (node \<rightharpoonup> pyfloat) \<Rightarrow> node set \<Rightarrow> node list \<Rightarrow> heap \<Rightarrow> excecao + node list" where
  "dijkstra_laco G destino_id distancias visitados explorados heap =
     (case heap of
        [] \<Rightarrow> Inr explorados
      | x # xs \<Rightarrow>
          (let du = heap_menor x xs; heap1 = remove1 du heap; d = fst du; u = snd du in
           if u \<in> visitados then dijkstra_laco G destino_id distancias visitados explorados heap1
           else
             (let visitados1 = insert u visitados; explorados1 = set_add u explorados in
              if u = destino_id then Inr explorados1
              else
                (case vizinhos G u of
                   Inl e \<Rightarrow> Inl e
                 | Inr vs \<Rightarrow>
                     (case relaxar_dijkstra G u d visitados1 vs distancias heap1 of
                        Inl e \<Rightarrow> Inl e
                      | Inr (distancias1, heap2) \<Rightarrow>
                          dijkstra_laco G destino_id distancias1 visitados1 explorados1 heap2)))))"
  by pat_completeness auto
termination
proof (relation "measures [\<lambda>(G, destino_id, distancias, visitados, explorados, heap).
                              card (set (map fst (nos G)) - visitados),
                           \<lambda>(G, destino_id, distancias, visitados, explorados, heap). length heap]",
       goal_cases)
  case 1
  then show ?case by simp
next
  case (2 G destino_id distancias visitados explorados heap x xs du heap1 d u)
  then have "du \<in> set heap"
    using heap_menor_in[of x xs] by simp
  then have "length (remove1 du heap) < length heap"
    using length_pos_if_in_set[of du heap] by (simp add: length_remove1)
  with 2 show ?case by simp
next
  case (3 G destino_id distancias visitados explorados heap x xs du heap1 d u visitados1 explorados1 vs r distancias1 heap2)
  then have "u \<in> set (map fst (nos G))" "u \<notin> visitados"
    by (auto simp: vizinhos_def split: if_splits)
  then have "card (set (map fst (nos G)) - insert u visitados) < card (set (map fst (nos G)) - visitados)"
    by (intro psubset_card_mono) auto
  with 3 show ?case by simp
qed

text \<open>
  \<open>contar_nos_dijkstra\<close>: the body of the \<open>try\<close>, and the function with its
  \<open>except Exception: return 0\<close>.
\<close>

definition contar_nos_dijkstra_busca :: "grafo \<Rightarrow> node \<Rightarrow> node \<Rightarrow> excecao + node list" where
  "contar_nos_dijkstra_busca G origem_id destino_id =
     dijkstra_laco G destino_id [origem_id \<mapsto> Fin 0] {} [] [(Fin 0, origem_id)]"

definition contar_nos_dijkstra :: "grafo \<Rightarrow> node \<Rightarrow> node \<Rightarrow> nat" where
  "contar_nos_dijkstra G origem_id destino_id =
     (case contar_nos_dijkstra_busca G origem_id destino_id of
        Inr explorados \<Rightarrow> length explorados
      | Inl e \<Rightarrow> 0)"

text \<open>
  \<open>contar_nos_astar\<close>. The heuristic \<open>heuristica_astar(G, v, destino_id)\<close> is imported
  from route\_calculator inside the \<open>try\<close>; the result of that import (the function, or
  the exception the import raises) is the parameter \<open>importacao\<close>.
\<close>

fun relaxar_astar ::
  "(grafo \<Rightarrow> node \<Rightarrow> node \<Rightarrow> excecao + real) \<Rightarrow> grafo \<Rightarrow> node \<Rightarrow> node \<Rightarrow> node set \<Rightarrow> node list
     \<Rightarrow> (node \<rightharpoonup> pyfloat) \<Rightarrow> heap \<Rightarrow> excecao + ((node \<rightharpoonup> pyfloat) \<times> heap)" where
  "relaxar_astar heuristica_astar G u destino_id visitados [] distancias heap = Inr (distancias, heap)"
| "relaxar_astar heuristica_astar G u destino_id visitados (v # vs) distancias heap =
     (if v \<notin> visitados then
        (case peso_minimo_laco (dados_entre G u v) Inf of
           Inl e \<Rightarrow> Inl e
         | Inr peso_minimo \<Rightarrow>
             (case distancias u of
                None \<Rightarrow> Inl (Exc KeyError ''dist[u]'')
              | Some du \<Rightarrow>
                  (let nova_dist = pf_add du peso_minimo in
                   if (case distancias v of None \<Rightarrow> True | Some dv \<Rightarrow> pf_less nova_dist dv)
                   then
                     (case heuristica_astar G v destino_id of
                        Inl e \<Rightarrow> Inl e
                      | Inr h \<Rightarrow>
                          (let f = pf_add nova_dist (Fin h) in
                           relaxar_astar heuristica_astar G u destino_id visitados vs
                             (distancias(v \<mapsto> nova_dist)) (heap @ [(f, v)])))
                   else relaxar_astar heuristica_astar G u destino_id visitados vs distancias heap)))
      else relaxar_astar heuristica_astar G u destino_id visitados vs distancias heap)"

function astar_laco ::
  "(grafo \<Rightarrow> node \<Rightarrow> node \<Rightarrow> excecao + real) \<Rightarrow> grafo \<Rightarrow> node \<Rightarrow> (node \<rightharpoonup> pyfloat) \<Rightarrow> node set
     \<Rightarrow> node list \<Rightarrow> heap \<Rightarrow> excecao + node list" where
  "astar_laco heuristica_astar G destino_id distancias visitados explorados heap =
     (case heap of
        [] \<Rightarrow> Inr explorados
      | x # xs \<Rightarrow>
          (let fu = heap_menor x xs; heap1 = remove1 fu heap; f_score = fst fu; u = snd fu in
           if u \<in> visitados
           then astar_laco heuristica_astar G destino_id distancias visitados explorados heap1
           else
             (let visitados1 = insert u visitados; explorados1 = set_add u explorados in
              if u = destino_id then Inr explorados1
              else
                (case vizinhos G u of
                   Inl e \<Rightarrow> Inl e
                 | Inr vs \<Rightarrow>
                     (case relaxar_astar heuristica_astar G u destino_id visitados1 vs distancias heap1 of
                        Inl e \<Rightarrow> Inl e
                      | Inr (distancias1, heap2) \<Rightarrow>
                          astar_laco heuristica_astar G destino_id distancias1 visitados1
                            explorados1 heap2)))))"
  by pat_completeness auto
termination
proof (relation "measures [\<lambda>(h, G, destino_id, distancias, visitados, explorados, heap).
                              card (set (map fst (nos G)) - visitados),
                           \<lambda>(h, G, destino_id, distancias, visitados, explorados, heap). length heap]",
       goal_cases)
  case 1
  then show ?case by simp
next
  case (2 h G destino_id distancias visitados explorados heap x xs fu heap1 f_score u)
  then have "fu \<in> set heap"
    using heap_menor_in[of x xs] by simp
  then have "length (remove1 fu heap) < length heap"
    using length_pos_if_in_set[of fu heap] by (simp add: length_remove1)
  with 2 show ?case by simp
next
  case (3 h G destino_id distancias visitados explorados heap x xs fu heap1 f_score u visitados1
          explorados1 vs r distancias1 heap2)
  then have "u \<in> set (map fst (nos G))" "u \<notin> visitados"
    by (auto simp: vizinhos_def split: if_splits)
  then have "card (set (map fst (nos G)) - insert u visitados) < card (set (map fst (nos G)) - visitados)"
    by (intro psubset_card_mono) auto
  with 3 show ?case by simp
qed

definition contar_nos_astar_busca ::
  "excecao + (grafo \<Rightarrow> node \<Rightarrow> node \<Rightarrow> excecao + real) \<Rightarrow> grafo \<Rightarrow> node \<Rightarrow> node
     \<Rightarrow> excecao + node list" where
  "contar_nos_astar_busca importacao G origem_id destino_id =
     (case importacao of
        Inl e \<Rightarrow> Inl e
      | Inr heuristica_astar \<Rightarrow>
          astar_laco heuristica_astar G destino_id [origem_id \<mapsto> Fin 0] {} [] [(Fin 0, origem_id)])"

definition contar_nos_astar ::
  "excecao + (grafo \<Rightarrow> node \<Rightarrow> node \<Rightarrow> excecao + real) \<Rightarrow> grafo \<Rightarrow> node \<Rightarrow> node \<Rightarrow> nat" where
  "contar_nos_astar importacao G origem_id destino_id =
     (case contar_nos_astar_busca importacao G origem_id destino_id of
        Inr explorados \<Rightarrow> length explorados
      | Inl e \<Rightarrow> 0)"

section \<open>Paths and the invariant of the two searches\<close>















section \<open>route\_calculator.py\<close>

text \<open>
  Points are pairs \<open>(lat, lon)\<close>. The functions of OSMnx and NetworkX the module calls
  are parameters: each returns its value or the exception it raises (an \<open>Exception\<close>;
  interrupts are outside the model).
\<close>

type_synonym coord = "real \<times> real"
type_synonym pontos = "(pyval \<times> pyval) list"

record biblioteca =
  nearest_nodes :: "grafo \<Rightarrow> real \<Rightarrow> real \<Rightarrow> excecao + node"
  shortest_path :: "grafo \<Rightarrow> node \<Rightarrow> node \<Rightarrow> excecao + node list"
  shortest_path_length :: "grafo \<Rightarrow> node \<Rightarrow> node \<Rightarrow> excecao + real"
  has_path :: "grafo \<Rightarrow> node \<Rightarrow> node \<Rightarrow> excecao + bool"

text \<open>\<open>G.nodes[n][k]\<close>.\<close>

definition no_attr :: "grafo \<Rightarrow> node \<Rightarrow> string \<Rightarrow> excecao + pyval" where
  "no_attr G n k =
     (case map_of (nos G) n of
        None \<Rightarrow> Inl (Exc KeyError ''node'')
      | Some d \<Rightarrow> (case d k of None \<Rightarrow> Inl (Exc KeyError k) | Some x \<Rightarrow> Inr x))"

text \<open>
  \<open>extrair_geometria_rota\<close>: for each pair of consecutive nodes, the points of the first
  parallel edge's geometry, or the two end points when it has none.
\<close>

fun extrair_laco :: "grafo \<Rightarrow> (node \<times> node) list \<Rightarrow> pontos \<Rightarrow> excecao + pontos" where
  "extrair_laco G [] pontos_rota = Inr pontos_rota"
| "extrair_laco G ((u, v) # resto) pontos_rota =
     (case dados_entre G u v of
        [] \<Rightarrow> extrair_laco G resto pontos_rota
      | attrs # outros \<Rightarrow>
          (let geom = py_get attrs ''geometry'' PNone in
           if py_truthy geom then
             (case geom of
                PGeom coords \<Rightarrow>
                  extrair_laco G resto
                    (pontos_rota @ map (\<lambda>(lng, lat). (PNum lat, PNum lng)) coords)
              | _ \<Rightarrow> Inl (Exc AttributeError ''coords''))
           else
             (case no_attr G u ''y'' of Inl e \<Rightarrow> Inl e | Inr uy \<Rightarrow>
             (case no_attr G u ''x'' of Inl e \<Rightarrow> Inl e | Inr ux \<Rightarrow>
             (case no_attr G v ''y'' of Inl e \<Rightarrow> Inl e | Inr vy \<Rightarrow>
             (case no_attr G v ''x'' of Inl e \<Rightarrow> Inl e | Inr vx \<Rightarrow>
                extrair_laco G resto (pontos_rota @ [(uy, ux), (vy, vx)])))))))"

definition extrair_geometria_rota :: "grafo \<Rightarrow> node list \<Rightarrow> excecao + pontos" where
  "extrair_geometria_rota G rota_nodes = extrair_laco G (zip (butlast rota_nodes) (tl rota_nodes)) []"

text \<open>
  \<open>calcular_rota\<close>: the body of the \<open>try\<close>, then the function with its two handlers.
  The second component of the result lists the messages shown with \<open>st.error\<close>. The
  result is a sum so that "it raises" can be stated; no branch returns \<open>Inl\<close>.
\<close>

definition calcular_rota_corpo ::
  "biblioteca \<Rightarrow> grafo \<Rightarrow> coord \<Rightarrow> coord \<Rightarrow> excecao + (pontos \<times> real)" where
  "calcular_rota_corpo lib G origem destino =
     (case nearest_nodes lib G (snd origem) (fst origem) of Inl e \<Rightarrow> Inl e | Inr no_origem \<Rightarrow>
     (case nearest_nodes lib G (snd destino) (fst destino) of Inl e \<Rightarrow> Inl e | Inr no_destino \<Rightarrow>
     (case shortest_path lib G no_origem no_destino of Inl e \<Rightarrow> Inl e | Inr rota_nodes \<Rightarrow>
     (case shortest_path_length lib G no_origem no_destino of Inl e \<Rightarrow> Inl e | Inr distancia \<Rightarrow>
     (case extrair_geometria_rota G rota_nodes of Inl e \<Rightarrow> Inl e | Inr pontos_rota \<Rightarrow>
        Inr (pontos_rota, distancia))))))"

definition mensagem_erro_rota :: "excecao \<Rightarrow> string" where
  "mensagem_erro_rota e =
     [CHR 0xE2, CHR 0x9A, CHR 0xA0, CHR 0xEF, CHR 0xB8, CHR 0x8F] @ '' Erro ao calcular rota: ''
       @ mensagem e"

definition calcular_rota ::
  "biblioteca \<Rightarrow> grafo \<Rightarrow> coord \<Rightarrow> coord
     \<Rightarrow> excecao + ((pontos option \<times> real option) \<times> string list)" where
  "calcular_rota lib G origem destino =
     (case calcular_rota_corpo lib G origem destino of
        Inr (pontos_rota, distancia) \<Rightarrow> Inr ((Some pontos_rota, Some distancia), [])
      | Inl e \<Rightarrow>
          if classe e = NetworkXNoPath then Inr ((None, None), [])
          else Inr ((None, None), [mensagem_erro_rota e]))"

text \<open>
  A call \<open>calcular_rota(G, origem, destino, **kwargs)\<close>: the function has the three
  positional parameters and no other, so any keyword argument is a \<open>TypeError\<close>. The
  messages of \<open>st.error\<close> are a side effect and are dropped here.
\<close>

definition chamar_calcular_rota ::
  "biblioteca \<Rightarrow> grafo \<Rightarrow> coord \<Rightarrow> coord \<Rightarrow> (string \<times> pyval) list
     \<Rightarrow> excecao + (pontos option \<times> real option)" where
  "chamar_calcular_rota lib G origem destino kwargs =
     (case kwargs of
        [] \<Rightarrow> (case calcular_rota lib G origem destino of
                 Inl e \<Rightarrow> Inl e
               | Inr (resultado, mensagens) \<Rightarrow> Inr resultado)
      | (k, x) # outros \<Rightarrow>
          (if k \<in> set [''G'', ''origem'', ''destino'']
           then Inl (Exc TypeError (''calcular_rota() got multiple values for argument ''
                                     @ [CHR 0x27] @ k @ [CHR 0x27]))
           else Inl (Exc TypeError (''calcular_rota() got an unexpected keyword argument ''
                                     @ [CHR 0x27] @ k @ [CHR 0x27]))))"

text \<open>
  The names the module binds at top level, and \<open>from route_calculator import n\<close>.
\<close>

definition nomes_route_calculator :: "string list" where
  "nomes_route_calculator =
     [''st'', ''ox'', ''nx'', ''extrair_geometria_rota'', ''calcular_rota'',
      ''calcular_rota_completa'', ''gerar_gpx'']"

definition erro_importacao :: "string \<Rightarrow> excecao" where
  "erro_importacao n =
     Exc ImportError (''cannot import name '' @ [CHR 0x27] @ n @ [CHR 0x27]
                       @ '' from '' @ [CHR 0x27] @ ''route_calculator'' @ [CHR 0x27])"

definition importar_de_route_calculator :: "string \<Rightarrow> excecao + string" where
  "importar_de_route_calculator n =
     (if n \<in> set nomes_route_calculator then Inr n else Inl (erro_importacao n))"

section \<open>benchmark\_algoritmos.py: measurements\<close>

text \<open>
  The two dataclasses. The fields \<open>origem\<close> and \<open>destino\<close> of \<open>ResultadoComparacao\<close>
  are named \<open>rc_origem\<close> and \<open>rc_destino\<close> here.
\<close>

record MedicaoAlgoritmo =
  algoritmo :: string
  sucesso :: bool
  tempos_ms :: "real list"
  tempo_medio_ms :: real
  tempo_mediano_ms :: real
  tempo_min_ms :: real
  tempo_max_ms :: real
  desvio_padrao_ms :: real
  percentil_95_ms :: real
  percentil_99_ms :: real
  distancia :: "real option"
  num_pontos :: nat
  nos_explorados :: nat
  erro :: "string option"

record ResultadoComparacao =
  rc_origem :: string
  rc_destino :: string
  distancia_euclidiana :: real
  categoria_distancia :: string
  dijkstra :: MedicaoAlgoritmo
  astar :: MedicaoAlgoritmo
  speedup_medio :: real
  speedup_mediano :: real
  economia_nos_pct :: real

definition calcular_distancia_euclidiana :: "coord \<Rightarrow> coord \<Rightarrow> real" where
  "calcular_distancia_euclidiana p1 p2 =
     (let lat1 = fst p1; lon1 = snd p1; lat2 = fst p2; lon2 = snd p2;
          metros_por_grau_lat = 111000;
          metros_por_grau_lon = 111000 * cos (lat1 * pi / 180);
          delta_lat = (lat2 - lat1) * metros_por_grau_lat;
          delta_lon = (lon2 - lon1) * metros_por_grau_lon
      in sqrt (delta_lat ^ 2 + delta_lon ^ 2))"

definition verificar_conectividade :: "biblioteca \<Rightarrow> grafo \<Rightarrow> coord \<Rightarrow> coord \<Rightarrow> bool" where
  "verificar_conectividade lib G origem destino =
     (case nearest_nodes lib G (snd origem) (fst origem) of Inl e \<Rightarrow> False | Inr no_origem \<Rightarrow>
     (case nearest_nodes lib G (snd destino) (fst destino) of Inl e \<Rightarrow> False | Inr no_destino \<Rightarrow>
     (case has_path lib G no_origem no_destino of Inl e \<Rightarrow> False | Inr b \<Rightarrow> b)))"

text \<open>
  The module \<open>statistics\<close> of the standard library, on a list of reals. \<open>py_min\<close>
  and \<open>py_max\<close> are the builtins \<open>min\<close> and \<open>max\<close>; they are only applied to a list
  that is not empty.
\<close>

definition py_mean :: "real list \<Rightarrow> real" where
  "py_mean xs = sum_list xs / real (length xs)"

definition py_median :: "real list \<Rightarrow> real" where
  "py_median xs =
     (let dados = sort xs; n = length dados in
      if n mod 2 = 1 then dados ! (n div 2)
      else (dados ! (n div 2 - 1) + dados ! (n div 2)) / 2)"

definition py_stdev :: "real list \<Rightarrow> real" where
  "py_stdev xs =
     sqrt (sum_list (map (\<lambda>x. (x - py_mean xs) ^ 2) xs) / (real (length xs) - 1))"

definition py_min :: "real list \<Rightarrow> real" where
  "py_min xs = fold min (tl xs) (hd xs)"

definition py_max :: "real list \<Rightarrow> real" where
  "py_max xs = fold max (tl xs) (hd xs)"

text \<open>
  \<open>statistics.quantiles(data, n=n)\<close> with its default method 'exclusive': the
  \<open>i\<close>-th of the \<open>n - 1\<close> cut points, \<open>1 \<le> i < n\<close>, interpolates linearly
  between two neighbours of the sorted data, as
  \<open>(data[j - 1] * (n - delta) + data[j] * delta) / n\<close>. It needs two data points.
  The data are floats and \<open>n - delta\<close>, \<open>delta\<close> and \<open>n\<close> integers, so each of the two
  products, the sum and the quotient is a float operation, which rounds its exact
  result. That rounding is the parameter \<open>arredonda\<close>.
\<close>

definition quantil :: "(real \<Rightarrow> real) \<Rightarrow> real list \<Rightarrow> nat \<Rightarrow> nat \<Rightarrow> real" where
  "quantil arredonda xs n i =
     (let dados = sort xs; ld = length dados; m = ld + 1;
          j0 = i * m div n;
          j = (if j0 < 1 then 1 else if j0 > ld - 1 then ld - 1 else j0);
          delta = int (i * m) - int (j * n)
      in arredonda
           (arredonda (arredonda (dados ! (j - 1) * real_of_int (int n - delta))
                       + arredonda (dados ! j * real_of_int delta))
            / real n))"

definition py_quantiles :: "(real \<Rightarrow> real) \<Rightarrow> real list \<Rightarrow> nat \<Rightarrow> real list" where
  "py_quantiles arredonda xs n = map (quantil arredonda xs n) [1..<n]"

definition percentil_95 :: "(real \<Rightarrow> real) \<Rightarrow> real list \<Rightarrow> real" where
  "percentil_95 arredonda tempos =
     (if length tempos \<ge> 20 then py_quantiles arredonda tempos 20 ! 18 else py_max tempos)"

definition percentil_99 :: "(real \<Rightarrow> real) \<Rightarrow> real list \<Rightarrow> real" where
  "percentil_99 arredonda tempos =
     (if length tempos \<ge> 100 then py_quantiles arredonda tempos 100 ! 98 else py_max tempos)"

text \<open>
  The rounding of Python's floats, which are IEEE 754 binary64 numbers: to the nearest
  number with a significand of 53 bits, a tie going to the even significand. This is the
  rounding in the normal range, where timings in milliseconds lie; underflow and overflow
  are left out.
\<close>

definition arredonda_par :: "real \<Rightarrow> int" where
  "arredonda_par x =
     (let n = \<lfloor>x\<rfloor>; r = x - real_of_int n in
      if r < 1 / 2 then n else if 1 / 2 < r then n + 1 else if even n then n else n + 1)"

definition binary64 :: "real \<Rightarrow> real" where
  "binary64 x =
     (if x = 0 then 0
      else (let e = \<lfloor>log 2 \<bar>x\<bar>\<rfloor> - 52; ulp = 2 powr real_of_int e
            in real_of_int (arredonda_par (x / ulp)) * ulp))"

text \<open>
  What a measurement run meets outside the graph: the node lookup of OSMnx, the
  \<open>i\<close>-th call the run makes to \<open>calcular_rota\<close> (with its keyword arguments), the
  \<open>k\<close>-th reading of \<open>time.perf_counter()\<close>, the import of the heuristic, and the
  rounding of the float operations of \<open>statistics.quantiles\<close>.
\<close>

record ambiente =
  amb_nearest_nodes :: "grafo \<Rightarrow> real \<Rightarrow> real \<Rightarrow> excecao + node"
  amb_calcular_rota ::
    "nat \<Rightarrow> grafo \<Rightarrow> coord \<Rightarrow> coord \<Rightarrow> (string \<times> pyval) list
       \<Rightarrow> excecao + (pontos option \<times> real option)"
  amb_perf_counter :: "nat \<Rightarrow> real"
  amb_heuristica :: "excecao + (grafo \<Rightarrow> node \<Rightarrow> node \<Rightarrow> excecao + real)"
  amb_arredonda :: "real \<Rightarrow> real"

text \<open>
  The record both failure exits of \<open>medir_algoritmo_completo\<close> build, up to the
  message.
\<close>

definition medicao_falha :: "string \<Rightarrow> string \<Rightarrow> MedicaoAlgoritmo" where
  "medicao_falha alg msg =
     \<lparr>algoritmo = alg, sucesso = False, tempos_ms = [], tempo_medio_ms = 0,
      tempo_mediano_ms = 0, tempo_min_ms = 0, tempo_max_ms = 0, desvio_padrao_ms = 0,
      percentil_95_ms = 0, percentil_99_ms = 0, distancia = Some 0, num_pontos = 0,
      nos_explorados = 0, erro = Some msg\<rparr>"

text \<open>
  The warm-up loop (\<open>Some e\<close> when a call raises \<open>e\<close>) and the timed loop, whose
  \<open>j\<close>-th iteration makes call \<open>warmup + j\<close> between clock readings \<open>2j\<close> and \<open>2j + 1\<close>.
\<close>

fun aquecer ::
  "ambiente \<Rightarrow> grafo \<Rightarrow> coord \<Rightarrow> coord \<Rightarrow> string \<Rightarrow> nat \<Rightarrow> nat \<Rightarrow> excecao option" where
  "aquecer amb G origem destino alg 0 i = None"
| "aquecer amb G origem destino alg (Suc k) i =
     (case amb_calcular_rota amb i G origem destino [(''algoritmo'', PStr alg)] of
        Inl e \<Rightarrow> Some e
      | Inr r \<Rightarrow> aquecer amb G origem destino alg k (Suc i))"

datatype resultado_laco =
    LacoExcecao excecao
  | LacoSemCaminho
  | LacoCompleto "real list" "real option" "pontos option"

fun medir_laco ::
  "ambiente \<Rightarrow> grafo \<Rightarrow> coord \<Rightarrow> coord \<Rightarrow> string \<Rightarrow> nat \<Rightarrow> nat \<Rightarrow> nat
     \<Rightarrow> real list \<Rightarrow> real option \<Rightarrow> pontos option \<Rightarrow> resultado_laco" where
  "medir_laco amb G origem destino alg warmup 0 j tempos distancia_final pontos_final =
     LacoCompleto tempos distancia_final pontos_final"
| "medir_laco amb G origem destino alg warmup (Suc k) j tempos distancia_final pontos_final =
     (let inicio = amb_perf_counter amb (2 * j) in
      case amb_calcular_rota amb (warmup + j) G origem destino [(''algoritmo'', PStr alg)] of
        Inl e \<Rightarrow> LacoExcecao e
      | Inr (pontos, dist_rota) \<Rightarrow>
          (let fim = amb_perf_counter amb (2 * j + 1) in
           case pontos of
             None \<Rightarrow> LacoSemCaminho
           | Some p \<Rightarrow>
               medir_laco amb G origem destino alg warmup k (Suc j)
                 (tempos @ [(fim - inicio) * 1000]) dist_rota (Some p)))"

text \<open>
  \<open>medir_algoritmo_completo\<close>. Every exception of the body ends in the handler, which
  returns the failure record with \<open>str(e)\<close>; with no timing at all the first exception is
  that of \<open>statistics.mean\<close>.
\<close>

definition medir_algoritmo_completo ::
  "ambiente \<Rightarrow> grafo \<Rightarrow> coord \<Rightarrow> coord \<Rightarrow> string \<Rightarrow> nat \<Rightarrow> nat \<Rightarrow> MedicaoAlgoritmo" where
  "medir_algoritmo_completo amb G origem destino alg repeticoes warmup =
     (case amb_nearest_nodes amb G (snd origem) (fst origem) of
        Inl e \<Rightarrow> medicao_falha alg (mensagem e)
      | Inr no_origem \<Rightarrow>
     (case amb_nearest_nodes amb G (snd destino) (fst destino) of
        Inl e \<Rightarrow> medicao_falha alg (mensagem e)
      | Inr no_destino \<Rightarrow>
     (case aquecer amb G origem destino alg warmup 0 of
        Some e \<Rightarrow> medicao_falha alg (mensagem e)
      | None \<Rightarrow>
     (case medir_laco amb G origem destino alg warmup repeticoes 0 [] None None of
        LacoExcecao e \<Rightarrow> medicao_falha alg (mensagem e)
      | LacoSemCaminho \<Rightarrow> medicao_falha alg ''Sem caminho''
      | LacoCompleto tempos distancia_final pontos_final \<Rightarrow>
          (let explorados =
                 (if alg = ''dijkstra'' then contar_nos_dijkstra G no_origem no_destino
                  else contar_nos_astar (amb_heuristica amb) G no_origem no_destino)
           in if tempos = [] then medicao_falha alg ''mean requires at least one data point''
              else
                (case pontos_final of
                   None \<Rightarrow> medicao_falha alg ''object of type NoneType has no len()''
                 | Some p \<Rightarrow>
                     \<lparr>algoritmo = alg, sucesso = True, tempos_ms = tempos,
                      tempo_medio_ms = py_mean tempos,
                      tempo_mediano_ms = py_median tempos,
                      tempo_min_ms = py_min tempos,
                      tempo_max_ms = py_max tempos,
                      desvio_padrao_ms = (if length tempos > 1 then py_stdev tempos else 0),
                      percentil_95_ms = percentil_95 (amb_arredonda amb) tempos,
                      percentil_99_ms = percentil_99 (amb_arredonda amb) tempos,
                      distancia = distancia_final,
                      num_pontos = length p,
                      nos_explorados = explorados,
                      erro = None\<rparr>))))))"

text \<open>The environment the repository's own route\_calculator gives a measurement.\<close>

definition ambiente_route_calculator :: "biblioteca \<Rightarrow> (nat \<Rightarrow> real) \<Rightarrow> ambiente" where
  "ambiente_route_calculator lib relogio = \<lparr>
     amb_nearest_nodes = nearest_nodes lib,
     amb_calcular_rota = (\<lambda>i. chamar_calcular_rota lib),
     amb_perf_counter = relogio,
     amb_heuristica = Inl (erro_importacao ''heuristica_astar''),
     amb_arredonda = binary64\<rparr>"

text \<open>
  \<open>BenchmarkRotasAprimorado.executar\<close>. A draw is the outcome of
  \<open>random.sample(nomes, 2)\<close> with the two positions read from \<open>self.pois\<close>, together with
  the library and the environments in force during that iteration. The loop reads draws
  until enough pairs were accepted; with the draws exhausted before that it has no result.
\<close>

record estado_benchmark =
  pares_testados :: nat
  pares_invalidos :: nat
  resultados :: "ResultadoComparacao list"

record sorteio =
  sorteado_origem :: "string \<times> coord"
  sorteado_destino :: "string \<times> coord"
  bib :: biblioteca
  amb_dijkstra :: ambiente
  amb_astar :: ambiente

definition executar_passo :: "grafo \<Rightarrow> nat \<Rightarrow> sorteio \<Rightarrow> estado_benchmark \<Rightarrow> estado_benchmark" where
  "executar_passo G repeticoes_por_teste s st =
     (let origem_nome = fst (sorteado_origem s); destino_nome = fst (sorteado_destino s);
          origem = snd (sorteado_origem s); destino = snd (sorteado_destino s)
      in if \<not> verificar_conectividade (bib s) G origem destino
         then st\<lparr>pares_invalidos := pares_invalidos st + 1\<rparr>
         else
           (let dist_euclidiana = calcular_distancia_euclidiana origem destino;
                categoria = categorizar_distancia dist_euclidiana;
                med_dijkstra = medir_algoritmo_completo (amb_dijkstra s) G origem destino
                                 ''dijkstra'' repeticoes_por_teste 3;
                med_astar = medir_algoritmo_completo (amb_astar s) G origem destino
                                 ''astar'' repeticoes_por_teste 3
            in if \<not> (sucesso med_dijkstra \<and> sucesso med_astar)
               then st\<lparr>pares_invalidos := pares_invalidos st + 1\<rparr>
               else
                 (let sp_medio = (if tempo_medio_ms med_astar > 0
                                  then tempo_medio_ms med_dijkstra / tempo_medio_ms med_astar
                                  else 0);
                      sp_mediano = (if tempo_mediano_ms med_astar > 0
                                    then tempo_mediano_ms med_dijkstra / tempo_mediano_ms med_astar
                                    else 0);
                      economia_nos = (if nos_explorados med_dijkstra > 0
                                      then 100 * (1 - real (nos_explorados med_astar)
                                                        / real (nos_explorados med_dijkstra))
                                      else 0);
                      resultado = \<lparr>rc_origem = origem_nome, rc_destino = destino_nome,
                                   distancia_euclidiana = dist_euclidiana,
                                   categoria_distancia = categoria,
                                   dijkstra = med_dijkstra, astar = med_astar,
                                   speedup_medio = sp_medio, speedup_mediano = sp_mediano,
                                   economia_nos_pct = economia_nos\<rparr>
                  in st\<lparr>resultados := resultados st @ [resultado],
                        pares_testados := pares_testados st + 1\<rparr>)))"

fun executar_laco ::
  "grafo \<Rightarrow> nat \<Rightarrow> nat \<Rightarrow> sorteio list \<Rightarrow> estado_benchmark \<Rightarrow> estado_benchmark option" where
  "executar_laco G num_testes repeticoes_por_teste [] st =
     (if pares_testados st < num_testes then None else Some st)"
| "executar_laco G num_testes repeticoes_por_teste (s # ss) st =
     (if pares_testados st < num_testes
      then executar_laco G num_testes repeticoes_por_teste ss
             (executar_passo G repeticoes_por_teste s st)
      else Some st)"

definition ambas_com_sucesso :: "ResultadoComparacao \<Rightarrow> bool" where
  "ambas_com_sucesso r = (sucesso (dijkstra r) \<and> sucesso (astar r))"

section \<open>Example inputs\<close>

text \<open>
  The line graph of the specification's end-to-end scenario (nodes 1 to 4, three edges
  of 10 metres, the middle one a flight of steps), with node 1 a zebra crossing, and
  profiles that penalise steps or prefer crossings. \<open>sem_float\<close> is a \<open>float\<close> that
  parses nothing; \<open>float_exemplo\<close> parses the two numerals the tagged example uses.
\<close>

definition perfil_escadas :: MobilityProfile where
  "perfil_escadas = \<lparr>nome = ''escadas'', requer_acessibilidade = False, prefere_faixas = False,
     penalizacao_sem_rampa = 1, penalizacao_escadas = 5, penalizacao_inclinacao = 1,
     penalizacao_sem_faixa = 1\<rparr>"

definition perfil_faixas :: MobilityProfile where
  "perfil_faixas = \<lparr>nome = ''faixas'', requer_acessibilidade = False, prefere_faixas = True,
     penalizacao_sem_rampa = 1, penalizacao_escadas = 1, penalizacao_inclinacao = 1,
     penalizacao_sem_faixa = 2\<rparr>"

definition grafo_linha :: grafo where
  "grafo_linha = \<lparr>
     nos = [(1, [''crossing'' \<mapsto> PStr ''zebra'']), (2, Map.empty), (3, Map.empty), (4, Map.empty)],
     arestas = [((1, 2, 0), [''length'' \<mapsto> PNum 10]),
                ((2, 3, 0), [''length'' \<mapsto> PNum 10, ''highway'' \<mapsto> PStr ''steps'']),
                ((3, 4, 0), [''length'' \<mapsto> PNum 10])]\<rparr>"

definition sem_float :: "string \<Rightarrow> real option" where
  "sem_float s = None"

definition float_exemplo :: "string \<Rightarrow> real option" where
  "float_exemplo s = (if s = ''8'' then Some 8 else if s = ''1.2'' then Some 1.2 else None)"

definition perfil_cadeirante :: MobilityProfile where
  "perfil_cadeirante = \<lparr>nome = ''cadeirante'', requer_acessibilidade = True,
     prefere_faixas = True, penalizacao_sem_rampa = 4, penalizacao_escadas = 5,
     penalizacao_inclinacao = 2, penalizacao_sem_faixa = 3\<rparr>"

definition dados_etiquetados :: attrs where
  "dados_etiquetados = [''length'' \<mapsto> PNum 10, ''wheelchair'' \<mapsto> PStr ''limited'',
     ''highway'' \<mapsto> PStr ''steps'', ''incline'' \<mapsto> PStr ''8%'', ''ramp'' \<mapsto> PStr ''yes'',
     ''surface'' \<mapsto> PStr ''gravel'', ''width'' \<mapsto> PStr ''1.2 m'']"

definition grafo_etiquetado :: grafo where
  "grafo_etiquetado = \<lparr>nos = [(1, Map.empty), (2, Map.empty)],
     arestas = [((1, 2, 0), dados_etiquetados)]\<rparr>"

text \<open>
  Libraries and environments for the examples: an empty graph on which the node lookup
  fails; the line graph, where only node 4 is reachable from node 1; and a measurement
  whose first five calls of \<open>calcular_rota\<close> find a route and whose later calls find
  none.
\<close>

definition grafo_vazio :: grafo where
  "grafo_vazio = \<lparr>nos = [], arestas = []\<rparr>"

definition bib_vazia :: biblioteca where
  "bib_vazia = \<lparr>
     nearest_nodes = (\<lambda>G x y. Inl (Exc ValueError ''G must contain at least one node'')),
     shortest_path = (\<lambda>G s t. Inl (Exc NetworkXError ''node not in graph'')),
     shortest_path_length = (\<lambda>G s t. Inl (Exc NetworkXError ''node not in graph'')),
     has_path = (\<lambda>G s t. Inl (Exc NetworkXError ''node not in graph''))\<rparr>"

definition bib_linha :: biblioteca where
  "bib_linha = \<lparr>
     nearest_nodes = (\<lambda>G x y. Inr (if x \<le> 0 then 1 else 4)),
     shortest_path = (\<lambda>G s t. if s = 1 \<and> t = 4 then Inr [1, 2, 3, 4]
                                 else if s = t then Inr [s]
                                 else Inl (Exc NetworkXNoPath ''No path between nodes'')),
     shortest_path_length = (\<lambda>G s t. if s = 1 \<and> t = 4 then Inr 30
                                 else if s = t then Inr 0
                                 else Inl (Exc NetworkXNoPath ''No path between nodes'')),
     has_path = (\<lambda>G s t. Inr ((s = 1 \<and> t = 4) \<or> s = t))\<rparr>"

definition amb_falha_tardia :: ambiente where
  "amb_falha_tardia = \<lparr>
     amb_nearest_nodes = nearest_nodes bib_linha,
     amb_calcular_rota = (\<lambda>i G origem destino kwargs.
        if i < 5 then Inr (Some [(PNum 0, PNum 0), (PNum 0, PNum 1)], Some 30)
        else Inr (None, None)),
     amb_perf_counter = (\<lambda>k. real k),
     amb_heuristica = Inr (\<lambda>G v t. Inr 0),
     amb_arredonda = binary64\<rparr>"

definition sorteio_exemplo :: sorteio where
  "sorteio_exemplo = \<lparr>sorteado_origem = (''A'', (0, 0)), sorteado_destino = (''D'', (0, 1)),
     bib = bib_linha, amb_dijkstra = amb_falha_tardia, amb_astar = amb_falha_tardia\<rparr>"

definition estado_inicial :: estado_benchmark where
  "estado_inicial = \<lparr>pares_testados = 0, pares_invalidos = 0, resultados = []\<rparr>"

text \<open>
  Timing samples: the numbers 1 to 20, twenty times the number 7, twenty times the float
  seven places after 1 (\<open>1 + 7 / 2 ^ 52\<close>, in Python \<open>0x1.0000000000007p+0\<close>), and a
  measurement all of whose calls find a route, each taking one millisecond.
\<close>

definition tempos_1_a_20 :: "real list" where
  "tempos_1_a_20 = [1, 2, 3, 4, 5, 6, 7, 8, 9, 10, 11, 12, 13, 14, 15, 16, 17, 18, 19, 20]"

definition tempos_iguais :: "real list" where
  "tempos_iguais = [7, 7, 7, 7, 7, 7, 7, 7, 7, 7, 7, 7, 7, 7, 7, 7, 7, 7, 7, 7]"

definition tempos_quase_um :: "real list" where
  "tempos_quase_um = replicate 20 (4503599627370503 / 4503599627370496)"

definition amb_com_rota :: ambiente where
  "amb_com_rota = \<lparr>
     amb_nearest_nodes = nearest_nodes bib_linha,
     amb_calcular_rota = (\<lambda>i G origem destino kwargs.
        Inr (Some [(PNum 0, PNum 0), (PNum 0, PNum 1)], Some 30)),
     amb_perf_counter = (\<lambda>k. real k / 1000),
     amb_heuristica = Inr (\<lambda>G v t. Inr 0),
     amb_arredonda = binary64\<rparr>"






section \<open>Properties\<close>

lemma categorias_distintas: "curta \<noteq> media" "curta \<noteq> longa" "media \<noteq> longa"
  by (simp_all add: curta_def media_def longa_def)

text \<open>
  C9. \<open>categorizar_distancia\<close> returns "curta" exactly below 200, the middle category
  exactly from 200 (included) to 500 (excluded), and "longa" exactly from 500 on; 200.0
  is in the middle category and 500.0 is "longa".
\<close>

theorem categorizar_distancia_limites:
  "(categorizar_distancia d = curta) = (d < 200)
   \<and> (categorizar_distancia d = media) = (200 \<le> d \<and> d < 500)
   \<and> (categorizar_distancia d = longa) = (500 \<le> d)
   \<and> categorizar_distancia 200.0 = media \<and> categorizar_distancia 200.0 \<noteq> curta
   \<and> categorizar_distancia 500.0 = longa \<and> categorizar_distancia 500.0 \<noteq> media"
  using categorias_distintas by (auto simp: categorizar_distancia_def)

subsection \<open>Writes to the graph\<close>

lemma map_fst_map_entry: "map fst (AList.map_entry k f xs) = map fst xs"
  by (induction xs) auto

lemma nos_set_attr_aresta: "nos (set_attr_aresta G e k x) = nos G"
  by (simp add: set_attr_aresta_def)

lemma chaves_set_attr_aresta:
  "map fst (arestas (set_attr_aresta G e k x)) = map fst (arestas G)"
  by (simp add: set_attr_aresta_def map_fst_map_entry)

lemma dados_set_attr_aresta:
  "dados_aresta (set_attr_aresta G e k x) e' =
     (if e' = e then map_option (\<lambda>d. d(k \<mapsto> x)) (dados_aresta G e) else dados_aresta G e')"
  by (auto simp: dados_aresta_def set_attr_aresta_def map_of_map_entry split: option.splits)

lemma attr_set_attr_aresta:
  "attr_aresta (set_attr_aresta G e k x) e' k' =
     (if e' = e \<and> k' = k \<and> dados_aresta G e \<noteq> None then Some x else attr_aresta G e' k')"
  by (auto simp: attr_aresta_def dados_set_attr_aresta split: option.splits)

lemma ponderar_aresta_moldura:
  assumes "ponderar_aresta flt perfil faixas e G n = (G', n', err)"
  shows "nos G' = nos G" and "map fst (arestas G') = map fst (arestas G)"
    and "k \<noteq> ''length'' \<Longrightarrow> k \<noteq> ''length_original'' \<Longrightarrow> attr_aresta G' e' k = attr_aresta G e' k"
  using assms
  by (auto simp: ponderar_aresta_def Let_def nos_set_attr_aresta chaves_set_attr_aresta
        attr_set_attr_aresta split: prod.splits sum.splits option.splits if_splits)

lemma ponderar_laco_moldura:
  "ponderar_laco flt perfil faixas es G n = (G', n', err) \<Longrightarrow>
   nos G' = nos G \<and> map fst (arestas G') = map fst (arestas G)
   \<and> (\<forall>e k. k \<noteq> ''length'' \<longrightarrow> k \<noteq> ''length_original'' \<longrightarrow>
          attr_aresta G' e k = attr_aresta G e k)"
proof (induction es arbitrary: G n)
  case Nil
  then show ?case by simp
next
  case (Cons e es)
  obtain G2 n2 err2 where passo: "ponderar_aresta flt perfil faixas e G n = (G2, n2, err2)"
    by (cases "ponderar_aresta flt perfil faixas e G n") auto
  note m = ponderar_aresta_moldura[OF passo]
  show ?case
  proof (cases err2)
    case None
    with Cons.prems passo have "ponderar_laco flt perfil faixas es G2 n2 = (G', n', err)"
      by simp
    from Cons.IH[OF this] m show ?thesis by simp
  next
    case (Some ex)
    with Cons.prems passo have "G' = G2" by simp
    with m show ?thesis by simp
  qed
qed


lemma ponderar_aresta_snapshot:
  assumes "ponderar_aresta flt perfil faixas e G n = (G', n', err)"
      and "attr_aresta G e' ''length_original'' = Some s"
  shows "attr_aresta G' e' ''length_original'' = Some s"
  using assms
  by (auto simp: ponderar_aresta_def Let_def attr_set_attr_aresta
        split: prod.splits sum.splits option.splits if_splits)

lemma ponderar_laco_snapshot:
  "ponderar_laco flt perfil faixas es G n = (G', n', err) \<Longrightarrow>
   attr_aresta G e' ''length_original'' = Some s \<Longrightarrow>
   attr_aresta G' e' ''length_original'' = Some s"
proof (induction es arbitrary: G n)
  case Nil
  then show ?case by simp
next
  case (Cons e es)
  obtain G2 n2 err2 where passo: "ponderar_aresta flt perfil faixas e G n = (G2, n2, err2)"
    by (cases "ponderar_aresta flt perfil faixas e G n") auto
  note m = ponderar_aresta_snapshot[OF passo Cons.prems(2)]
  show ?case
  proof (cases err2)
    case None
    with Cons.prems passo have "ponderar_laco flt perfil faixas es G2 n2 = (G', n', err)"
      by simp
    from Cons.IH[OF this m] show ?thesis .
  next
    case (Some ex)
    with Cons.prems passo have "G' = G2" by simp
    with m show ?thesis by simp
  qed
qed

lemma calcular_peso_aresta_cong:
  "dados_aresta G (u, v, key) = dados_aresta G' (u, v, key) \<Longrightarrow>
   calcular_peso_aresta flt G u v key perfil faixas = calcular_peso_aresta flt G' u v key perfil faixas"
  by (simp add: calcular_peso_aresta_def)

lemma ponderar_aresta_outra:
  assumes "ponderar_aresta flt perfil faixas e G n = (G', n', err)" and "e' \<noteq> e"
  shows "dados_aresta G' e' = dados_aresta G e'"
  using assms
  by (auto simp: ponderar_aresta_def Let_def dados_set_attr_aresta
        split: prod.splits sum.splits option.splits if_splits)

text \<open>What a completed iteration leaves on its own edge.\<close>

lemma ponderar_aresta_efeito:
  assumes "ponderar_aresta flt perfil faixas (u, v, key) G n = (G', n', None)"
  shows "\<exists>w. calcular_peso_aresta flt G u v key perfil faixas = Inr w
            \<and> attr_aresta G' (u, v, key) ''length'' = Some (PNum w)
            \<and> attr_aresta G' (u, v, key) ''length_original'' =
                Some (case attr_aresta G (u, v, key) ''length_original'' of
                        Some s \<Rightarrow> s
                      | None \<Rightarrow> (case attr_aresta G (u, v, key) ''length'' of
                                   None \<Rightarrow> PNum 1.0 | Some x \<Rightarrow> x))"
proof -
  from assms obtain w where w: "calcular_peso_aresta flt G u v key perfil faixas = Inr w"
    by (auto simp: ponderar_aresta_def split: sum.splits)
  then have ex: "dados_aresta G (u, v, key) \<noteq> None"
    by (auto simp: calcular_peso_aresta_def split: option.splits)
  from assms w ex show ?thesis
    by (auto simp: ponderar_aresta_def Let_def attr_set_attr_aresta dados_set_attr_aresta
        split: sum.splits option.splits if_splits)
qed

lemma ponderar_laco_fora:
  "ponderar_laco flt perfil faixas es G n = (G', n', err) \<Longrightarrow> e \<notin> set es \<Longrightarrow>
   dados_aresta G' e = dados_aresta G e"
proof (induction es arbitrary: G n)
  case Nil
  then show ?case by simp
next
  case (Cons a es)
  obtain G2 n2 err2 where passo: "ponderar_aresta flt perfil faixas a G n = (G2, n2, err2)"
    by (cases "ponderar_aresta flt perfil faixas a G n") auto
  from Cons.prems have ne: "e \<noteq> a" "e \<notin> set es" by auto
  note m = ponderar_aresta_outra[OF passo ne(1)]
  show ?case
  proof (cases err2)
    case None
    with Cons.prems passo have "ponderar_laco flt perfil faixas es G2 n2 = (G', n', err)"
      by simp
    from Cons.IH[OF this ne(2)] m show ?thesis by simp
  next
    case (Some ex)
    with Cons.prems passo have "G' = G2" by simp
    with m show ?thesis by simp
  qed
qed

lemma ponderar_laco_efeito:
  "ponderar_laco flt perfil faixas es G n = (G', n', None) \<Longrightarrow> distinct es \<Longrightarrow>
   (u, v, key) \<in> set es \<Longrightarrow>
   \<exists>w. calcular_peso_aresta flt G u v key perfil faixas = Inr w
            \<and> attr_aresta G' (u, v, key) ''length'' = Some (PNum w)
            \<and> attr_aresta G' (u, v, key) ''length_original'' =
                Some (case attr_aresta G (u, v, key) ''length_original'' of
                        Some s \<Rightarrow> s
                      | None \<Rightarrow> (case attr_aresta G (u, v, key) ''length'' of
                                   None \<Rightarrow> PNum 1.0 | Some x \<Rightarrow> x))"
proof (induction es arbitrary: G n)
  case Nil
  then show ?case by simp
next
  case (Cons a es)
  obtain G2 n2 err2 where passo: "ponderar_aresta flt perfil faixas a G n = (G2, n2, err2)"
    by (cases "ponderar_aresta flt perfil faixas a G n") auto
  with Cons.prems(1) have err2: "err2 = None"
    by (cases err2) auto
  with Cons.prems(1) passo have resto: "ponderar_laco flt perfil faixas es G2 n2 = (G', n', None)"
    by simp
  show ?case
  proof (cases "a = (u, v, key)")
    case True
    with Cons.prems(2) have "(u, v, key) \<notin> set es" by simp
    from ponderar_laco_fora[OF resto this]
    have "dados_aresta G' (u, v, key) = dados_aresta G2 (u, v, key)" .
    then have "attr_aresta G' (u, v, key) k = attr_aresta G2 (u, v, key) k" for k
      by (simp add: attr_aresta_def)
    with ponderar_aresta_efeito[of flt perfil faixas u v key G n G2 n2] passo err2 True
    show ?thesis by simp
  next
    case False
    with Cons.prems have mem: "(u, v, key) \<in> set es" and d: "distinct es" by auto
    from False have "dados_aresta G2 (u, v, key) = dados_aresta G (u, v, key)"
      using ponderar_aresta_outra[OF passo] by auto
    then have eqs: "calcular_peso_aresta flt G2 u v key perfil faixas
                = calcular_peso_aresta flt G u v key perfil faixas"
      "attr_aresta G2 (u, v, key) ''length_original'' = attr_aresta G (u, v, key) ''length_original''"
      "attr_aresta G2 (u, v, key) ''length'' = attr_aresta G (u, v, key) ''length''"
      by (simp_all add: calcular_peso_aresta_def attr_aresta_def)
    from Cons.IH[OF resto d mem] show ?thesis unfolding eqs .
  qed
qed

lemma restaurar_aresta_idem: "restaurar_aresta (restaurar_aresta d) = restaurar_aresta d"
  by (auto simp: restaurar_aresta_def split: option.splits)

lemma restaurar_laco_dados:
  "dados_aresta (restaurar_laco es G) e =
     (if e \<in> set es then map_option restaurar_aresta (dados_aresta G e) else dados_aresta G e)"
proof (induction es arbitrary: G)
  case Nil
  then show ?case by simp
next
  case (Cons a es)
  have passo: "dados_aresta (G\<lparr>arestas := AList.map_entry a restaurar_aresta (arestas G)\<rparr>) e' =
     (if e' = a then map_option restaurar_aresta (dados_aresta G e') else dados_aresta G e')" for e'
    by (auto simp: dados_aresta_def map_of_map_entry split: option.splits)
  show ?case
    by (simp add: Cons.IH passo option.map_comp comp_def restaurar_aresta_idem)
qed

lemma restaurar_moldura:
  "nos (restaurar_laco es G) = nos G \<and> map fst (arestas (restaurar_laco es G)) = map fst (arestas G)"
  by (induction es arbitrary: G) (simp_all add: map_fst_map_entry)

lemma dados_aresta_fora: "e \<notin> set (map fst (arestas G)) \<Longrightarrow> dados_aresta G e = None"
  by (simp add: dados_aresta_def map_of_eq_None_iff)

lemma restaurar_dados:
  "dados_aresta (restaurar_pesos_originais G) e = map_option restaurar_aresta (dados_aresta G e)"
  using dados_aresta_fora[of e G]
  by (auto simp: restaurar_pesos_originais_def restaurar_laco_dados simp del: set_map)


lemma ponderar_grafo_laco:
  obtains n' where "ponderar_laco flt perfil (identificar_faixas_pedestres G)
      (map fst (arestas G)) G 0 = (fst (ponderar_grafo flt G perfil), n', snd (ponderar_grafo flt G perfil))"
  by (cases "ponderar_laco flt perfil (identificar_faixas_pedestres G) (map fst (arestas G)) G 0")
     (auto simp: ponderar_grafo_def)

lemmas avalia_peso = ponderar_grafo_def ponderar_aresta_def calcular_peso_aresta_def
  identificar_faixas_pedestres_def eh_faixa_def py_get_def dados_aresta_def attr_aresta_def
  set_attr_aresta_def passo_wheelchair_def passo_escadas_def passo_inclinacao_def
  passo_rampa_def passo_faixas_def passo_superficie_def passo_largura_def
  restaurar_pesos_originais_def restaurar_aresta_def custo_aresta_def Let_def
  valor_numerico_def py_strip_def py_remove_char_def py_isspace_def

lemmas avalia_fatores = peso_cinco_passos_def peso_sete_passos_def fator_wheelchair_def
  fator_escadas_def fator_inclinacao_def inclinacao_numerica_def fator_rampa_def eh_rampa_def
  fator_sem_faixa_def fator_faixas_def fator_superficie_def fator_largura_def
  largura_numerica_def

lemmas exemplos = grafo_linha_def perfil_escadas_def perfil_faixas_def sem_float_def
  float_exemplo_def perfil_cadeirante_def dados_etiquetados_def grafo_etiquetado_def

text \<open>
  C10. \<open>ponderar_grafo\<close> writes only the edge attributes 'length' and
  'length\_original': whatever it does (also when an exception ends it), the node
  dictionary with every node attribute, the edges with their keys and their order, and
  every other attribute of every edge are what they were before the call. The edge cost
  \<open>calcular_peso_aresta\<close> returns a value and no graph: the source assigns to nothing
  but its own local variables.
\<close>

theorem ponderar_grafo_moldura:
  "nos (fst (ponderar_grafo flt G perfil)) = nos G
   \<and> map fst (arestas (fst (ponderar_grafo flt G perfil))) = map fst (arestas G)
   \<and> (\<forall>e k. k \<noteq> ''length'' \<longrightarrow> k \<noteq> ''length_original'' \<longrightarrow>
          attr_aresta (fst (ponderar_grafo flt G perfil)) e k = attr_aresta G e k)"
proof -
  obtain n' where l: "ponderar_laco flt perfil (identificar_faixas_pedestres G)
      (map fst (arestas G)) G 0 = (fst (ponderar_grafo flt G perfil), n', snd (ponderar_grafo flt G perfil))"
    by (rule ponderar_grafo_laco)
  from ponderar_laco_moldura[OF l] show ?thesis by simp
qed

theorem ponderar_grafo_moldura_witness:
  "attr_aresta (fst (ponderar_grafo sem_float grafo_linha perfil_escadas)) (2, 3, 0) ''highway''
     = Some (PStr ''steps'')
   \<and> attr_aresta (fst (ponderar_grafo sem_float grafo_linha perfil_escadas)) (2, 3, 0) ''length''
     = Some (PNum 50)
   \<and> nos (fst (ponderar_grafo sem_float grafo_linha perfil_escadas)) = nos grafo_linha"
proof -
  have "attr_aresta (fst (ponderar_grafo sem_float grafo_linha perfil_escadas)) (2, 3, 0) ''highway''
        = attr_aresta grafo_linha (2, 3, 0) ''highway''"
    and "nos (fst (ponderar_grafo sem_float grafo_linha perfil_escadas)) = nos grafo_linha"
    using ponderar_grafo_moldura[of sem_float grafo_linha perfil_escadas] by simp_all
  moreover have "attr_aresta grafo_linha (2, 3, 0) ''highway'' = Some (PStr ''steps'')"
    by (simp add: attr_aresta_def dados_aresta_def grafo_linha_def)
  moreover have "attr_aresta (fst (ponderar_grafo sem_float grafo_linha perfil_escadas))
       (2, 3, 0) ''length'' = Some (PNum 50)"
    by (simp add: avalia_peso exemplos)
  ultimately show ?thesis by simp
qed

subsection \<open>Transform, restore, transform again\<close>

lemma ponderar_aresta_inv:
  assumes "ponderar_aresta flt perfil faixas a G n = (G', n', err)"
      and "d0 ''length_original'' = None"
      and "dados_aresta G e = Some d0
           \<or> attr_aresta G e ''length_original'' = Some (py_get d0 ''length'' (PNum 1.0))"
  shows "dados_aresta G' e = Some d0
           \<or> attr_aresta G' e ''length_original'' = Some (py_get d0 ''length'' (PNum 1.0))"
proof (cases "e = a")
  case False
  from ponderar_aresta_outra[OF assms(1) False] assms(3) show ?thesis
    by (simp add: attr_aresta_def)
next
  case True
  from assms(3) show ?thesis
  proof
    assume d: "dados_aresta G e = Some d0"
    with assms(1,2) True show ?thesis
      by (auto simp: ponderar_aresta_def Let_def attr_set_attr_aresta dados_set_attr_aresta
            attr_aresta_def py_get_def
            split: prod.splits sum.splits option.splits if_splits)
  next
    assume "attr_aresta G e ''length_original'' = Some (py_get d0 ''length'' (PNum 1.0))"
    from ponderar_aresta_snapshot[OF assms(1) this] show ?thesis by simp
  qed
qed

lemma ponderar_laco_inv:
  "ponderar_laco flt perfil faixas es G n = (G', n', err) \<Longrightarrow>
   d0 ''length_original'' = None \<Longrightarrow>
   dados_aresta G e = Some d0
     \<or> attr_aresta G e ''length_original'' = Some (py_get d0 ''length'' (PNum 1.0)) \<Longrightarrow>
   dados_aresta G' e = Some d0
     \<or> attr_aresta G' e ''length_original'' = Some (py_get d0 ''length'' (PNum 1.0))"
proof (induction es arbitrary: G n)
  case Nil
  then show ?case by simp
next
  case (Cons a es)
  obtain G2 n2 err2 where passo: "ponderar_aresta flt perfil faixas a G n = (G2, n2, err2)"
    by (cases "ponderar_aresta flt perfil faixas a G n") auto
  note m = ponderar_aresta_inv[OF passo Cons.prems(2,3)]
  show ?case
  proof (cases err2)
    case None
    with Cons.prems passo have "ponderar_laco flt perfil faixas es G2 n2 = (G', n', err)"
      by simp
    from Cons.IH[OF this Cons.prems(2) m] show ?thesis .
  next
    case (Some ex)
    with Cons.prems passo have "G' = G2" by simp
    with m show ?thesis by simp
  qed
qed

lemma restaurar_sem_snapshot:
  "attr_aresta G e ''length_original'' = None \<Longrightarrow>
   dados_aresta (restaurar_pesos_originais G) e = dados_aresta G e"
  by (auto simp: restaurar_dados attr_aresta_def restaurar_aresta_def split: option.splits)

text \<open>
  C3 (as the code has it). On an edge that carries no 'length\_original' yet, that is
  every edge of a graph that was not transformed before, \<open>ponderar_grafo\<close> followed by
  \<open>restaurar_pesos_originais\<close> gives back the cost the edge had, exactly, for any
  profile and also when the transform stops on an exception; and
  \<open>restaurar_pesos_originais\<close> alone leaves such an edge as it is. The restored value is
  the snapshot, so an edge that already carried one returns to the snapshot and not to
  the cost it had just before the transform.
\<close>

theorem restaurar_apos_ponderar:
  assumes "attr_aresta G e ''length_original'' = None"
  shows "custo_aresta (restaurar_pesos_originais (fst (ponderar_grafo flt G perfil))) e
           = custo_aresta G e
         \<and> dados_aresta (restaurar_pesos_originais G) e = dados_aresta G e"
proof
  obtain n' where l: "ponderar_laco flt perfil (identificar_faixas_pedestres G)
      (map fst (arestas G)) G 0 = (fst (ponderar_grafo flt G perfil), n', snd (ponderar_grafo flt G perfil))"
    by (rule ponderar_grafo_laco)
  define G' where "G' = fst (ponderar_grafo flt G perfil)"
  show "custo_aresta (restaurar_pesos_originais (fst (ponderar_grafo flt G perfil))) e
           = custo_aresta G e"
  proof (cases "dados_aresta G e")
    case None
    then have "e \<notin> set (map fst (arestas G))"
      by (simp add: dados_aresta_def map_of_eq_None_iff)
    then have "e \<notin> set (map fst (arestas G'))"
      using ponderar_laco_moldura[OF l] by (simp add: G'_def)
    then have "dados_aresta G' e = None" by (rule dados_aresta_fora)
    with None show ?thesis
      by (simp add: custo_aresta_def restaurar_dados G'_def)
  next
    case (Some d0)
    with assms have d0: "d0 ''length_original'' = None"
      by (simp add: attr_aresta_def)
    from ponderar_laco_inv[where ?d0.0 = d0 and e = e, OF l d0] Some
    have "dados_aresta G' e = Some d0
          \<or> attr_aresta G' e ''length_original'' = Some (py_get d0 ''length'' (PNum 1.0))"
      by (simp add: G'_def)
    then show ?thesis
    proof
      assume "dados_aresta G' e = Some d0"
      with Some d0 show ?thesis
        by (simp add: custo_aresta_def restaurar_dados restaurar_aresta_def G'_def)
    next
      assume "attr_aresta G' e ''length_original'' = Some (py_get d0 ''length'' (PNum 1.0))"
      with Some show ?thesis
        by (auto simp: custo_aresta_def restaurar_dados restaurar_aresta_def G'_def
              attr_aresta_def py_get_def split: option.splits)
    qed
  qed
next
  from assms show "dados_aresta (restaurar_pesos_originais G) e = dados_aresta G e"
    by (rule restaurar_sem_snapshot)
qed

text \<open>
  C4. Two applications of \<open>ponderar_grafo\<close> in a row, with any two profiles and no
  restore in between, both running to their end: the snapshot 'length\_original' of
  every edge after the second application is the one left by the first, which is the
  snapshot the edge already had or else its length before the first application; the
  length after the first application is the first cost, and the length after the second
  is the cost computed on the graph the first application left, whose base length is that
  first cost.
\<close>

theorem ponderar_grafo_duas_vezes:
  assumes "distinct (map fst (arestas G0))"
      and "ponderar_grafo flt G0 p1 = (G1, None)"
      and "ponderar_grafo flt G1 p2 = (G2, None)"
      and "(u, v, key) \<in> set (map fst (arestas G0))"
  shows "attr_aresta G2 (u, v, key) ''length_original'' = attr_aresta G1 (u, v, key) ''length_original''
       \<and> attr_aresta G1 (u, v, key) ''length_original'' =
           Some (case attr_aresta G0 (u, v, key) ''length_original'' of
                   Some s \<Rightarrow> s
                 | None \<Rightarrow> (case attr_aresta G0 (u, v, key) ''length'' of
                              None \<Rightarrow> PNum 1.0 | Some x \<Rightarrow> x))
       \<and> (\<exists>w1 w2. calcular_peso_aresta flt G0 u v key p1 (identificar_faixas_pedestres G0) = Inr w1
              \<and> attr_aresta G1 (u, v, key) ''length'' = Some (PNum w1)
              \<and> calcular_peso_aresta flt G1 u v key p2 (identificar_faixas_pedestres G1) = Inr w2
              \<and> attr_aresta G2 (u, v, key) ''length'' = Some (PNum w2))"
proof -
  obtain n1 where l1: "ponderar_laco flt p1 (identificar_faixas_pedestres G0)
      (map fst (arestas G0)) G0 0 = (G1, n1, None)"
    using ponderar_grafo_laco[of flt p1 G0] assms(2) by auto
  obtain n2 where l2: "ponderar_laco flt p2 (identificar_faixas_pedestres G1)
      (map fst (arestas G1)) G1 0 = (G2, n2, None)"
    using ponderar_grafo_laco[of flt p2 G1] assms(3) by auto
  from ponderar_laco_moldura[OF l1] have k1: "map fst (arestas G1) = map fst (arestas G0)"
    by simp
  from ponderar_laco_efeito[OF l1 assms(1,4)]
  obtain w1 where e1: "calcular_peso_aresta flt G0 u v key p1 (identificar_faixas_pedestres G0) = Inr w1"
     "attr_aresta G1 (u, v, key) ''length'' = Some (PNum w1)"
     "attr_aresta G1 (u, v, key) ''length_original'' =
           Some (case attr_aresta G0 (u, v, key) ''length_original'' of
                   Some s \<Rightarrow> s
                 | None \<Rightarrow> (case attr_aresta G0 (u, v, key) ''length'' of
                              None \<Rightarrow> PNum 1.0 | Some x \<Rightarrow> x))"
    by blast
  from assms(1,4) k1 have "distinct (map fst (arestas G1))" "(u, v, key) \<in> set (map fst (arestas G1))"
    by simp_all
  from ponderar_laco_efeito[OF l2 this]
  obtain w2 where e2: "calcular_peso_aresta flt G1 u v key p2 (identificar_faixas_pedestres G1) = Inr w2"
     "attr_aresta G2 (u, v, key) ''length'' = Some (PNum w2)"
    by blast
  from ponderar_laco_snapshot[OF l2 e1(3)] e1(3)
  have "attr_aresta G2 (u, v, key) ''length_original'' = attr_aresta G1 (u, v, key) ''length_original''"
    by simp
  with e1 e2 show ?thesis by blast
qed


theorem restaurar_apos_ponderar_witness:
  "custo_aresta (restaurar_pesos_originais (fst (ponderar_grafo sem_float grafo_linha perfil_escadas)))
      (2, 3, 0) = Some (PNum 10)
   \<and> custo_aresta (fst (ponderar_grafo sem_float grafo_linha perfil_escadas)) (2, 3, 0)
      = Some (PNum 50)"
proof -
  have "attr_aresta grafo_linha (2, 3, 0) ''length_original'' = None"
    by (simp add: attr_aresta_def dados_aresta_def grafo_linha_def)
  from restaurar_apos_ponderar[OF this, of sem_float perfil_escadas]
  have "custo_aresta (restaurar_pesos_originais (fst (ponderar_grafo sem_float grafo_linha perfil_escadas)))
      (2, 3, 0) = custo_aresta grafo_linha (2, 3, 0)" by simp
  moreover have "custo_aresta grafo_linha (2, 3, 0) = Some (PNum 10)"
    by (simp add: custo_aresta_def dados_aresta_def py_get_def grafo_linha_def)
  moreover have "custo_aresta (fst (ponderar_grafo sem_float grafo_linha perfil_escadas)) (2, 3, 0)
      = Some (PNum 50)"
    by (simp add: avalia_peso exemplos)
  ultimately show ?thesis by simp
qed

text \<open>
  The graph left by a first transform is an input on which the round trip does not give
  back the cost before the (second) transform: the steps edge costs 50 before it and 10
  after the restore.
\<close>

theorem restaurar_apos_ponderar_counterexample:
  "custo_aresta (restaurar_pesos_originais (fst (ponderar_grafo sem_float
        (fst (ponderar_grafo sem_float grafo_linha perfil_escadas)) perfil_faixas))) (2, 3, 0)
   \<noteq> custo_aresta (fst (ponderar_grafo sem_float grafo_linha perfil_escadas)) (2, 3, 0)"
  by (simp add: avalia_peso exemplos)

theorem ponderar_grafo_duas_vezes_witness:
  "attr_aresta (fst (ponderar_grafo sem_float
        (fst (ponderar_grafo sem_float grafo_linha perfil_escadas)) perfil_escadas))
      (2, 3, 0) ''length_original'' = Some (PNum 10)
   \<and> attr_aresta (fst (ponderar_grafo sem_float
        (fst (ponderar_grafo sem_float grafo_linha perfil_escadas)) perfil_escadas))
      (2, 3, 0) ''length'' = Some (PNum 250)"
proof -
  define G1 where "G1 = fst (ponderar_grafo sem_float grafo_linha perfil_escadas)"
  define G2 where "G2 = fst (ponderar_grafo sem_float G1 perfil_escadas)"
  have d: "distinct (map fst (arestas grafo_linha))"
    and m: "(2, 3, 0) \<in> set (map fst (arestas grafo_linha))"
    by (simp_all add: grafo_linha_def)
  have p1: "ponderar_grafo sem_float grafo_linha perfil_escadas = (G1, None)"
    unfolding G1_def by (simp add: avalia_peso exemplos)
  have p2: "ponderar_grafo sem_float G1 perfil_escadas = (G2, None)"
    unfolding G2_def G1_def by (simp add: avalia_peso exemplos)
  from ponderar_grafo_duas_vezes[OF d p1 p2 m]
  obtain w2 where
    lo: "attr_aresta G2 (2, 3, 0) ''length_original'' = attr_aresta G1 (2, 3, 0) ''length_original''"
    and w2: "calcular_peso_aresta sem_float G1 2 3 0 perfil_escadas (identificar_faixas_pedestres G1) = Inr w2"
      "attr_aresta G2 (2, 3, 0) ''length'' = Some (PNum w2)"
    by blast
  have "attr_aresta G1 (2, 3, 0) ''length_original'' = Some (PNum 10)"
    unfolding G1_def by (simp add: avalia_peso exemplos)
  moreover have "calcular_peso_aresta sem_float G1 2 3 0 perfil_escadas
      (identificar_faixas_pedestres G1) = Inr 250"
    unfolding G1_def by (simp add: avalia_peso exemplos)
  ultimately show ?thesis using lo w2 by (simp add: G1_def G2_def)
qed

subsection \<open>The edge cost\<close>


lemma passo_wheelchair_fator:
  "passo_wheelchair edge_data perfil f = f * fator_wheelchair edge_data perfil"
  by (simp add: passo_wheelchair_def fator_wheelchair_def Let_def)

lemma passo_escadas_fator:
  "passo_escadas edge_data perfil f = f * fator_escadas edge_data perfil"
  by (simp add: passo_escadas_def fator_escadas_def Let_def)

lemma passo_inclinacao_fator:
  "passo_inclinacao flt edge_data perfil f = f * fator_inclinacao flt edge_data perfil"
  by (simp add: passo_inclinacao_def fator_inclinacao_def Let_def inclinacao_numerica_def
        split: option.splits)

lemma passo_rampa_fator:
  "py_in ''ramp'' (py_get edge_data ''highway'' (PStr '''')) = Inr r \<Longrightarrow>
   passo_rampa r edge_data perfil f = f * fator_rampa edge_data perfil"
  by (auto simp: passo_rampa_def fator_rampa_def Let_def eh_rampa_def)

lemma passo_faixas_fator:
  "passo_faixas u v faixas perfil f = f * fator_faixas u v faixas perfil"
  by (simp add: passo_faixas_def fator_faixas_def Let_def)

lemma passo_superficie_fator:
  "passo_superficie edge_data perfil f = f * fator_superficie edge_data perfil"
  by (simp add: passo_superficie_def fator_superficie_def Let_def)

lemma passo_largura_fator:
  "passo_largura flt edge_data perfil f = f * fator_largura flt edge_data perfil"
  by (auto simp: passo_largura_def fator_largura_def Let_def largura_numerica_def
        split: option.splits)

text \<open>
  C1 (as the code has it). For an edge of the graph whose length is a number and whose
  highway tag is a string or a list, \<open>calcular_peso_aresta\<close> returns the base length
  ('length', 1.0 when absent) times the factor built from 1.0 by the seven rules in this
  order: wheelchair, steps, incline (every '%' removed and blanks stripped from a string;
  skipped when the tag is empty or does not parse), ramp, crossings (the penalty when
  neither end is a crossing, and 0.8 otherwise, only for a profile that prefers
  crossings), surface and width (both only for a profile that requires accessibility).
\<close>

theorem calcular_peso_aresta_sete_passos:
  assumes "dados_aresta G (u, v, key) = Some edge_data"
      and "py_get edge_data ''length'' (PNum 1.0) = PNum base"
      and "py_in ''ramp'' (py_get edge_data ''highway'' (PStr '''')) = Inr r"
  shows "calcular_peso_aresta flt G u v key perfil faixas
           = Inr (peso_sete_passos flt edge_data u v perfil faixas base)"
  using assms
  by (simp add: calcular_peso_aresta_def peso_sete_passos_def passo_wheelchair_fator
        passo_escadas_fator passo_inclinacao_fator passo_rampa_fator passo_faixas_fator
        passo_superficie_fator passo_largura_fator)


theorem calcular_peso_aresta_sete_passos_witness:
  "calcular_peso_aresta float_exemplo grafo_etiquetado 1 2 0 perfil_cadeirante
      (identificar_faixas_pedestres grafo_etiquetado) = Inr 1260"
proof -
  have "dados_aresta grafo_etiquetado (1, 2, 0) = Some dados_etiquetados"
    by (simp add: dados_aresta_def grafo_etiquetado_def)
  moreover have "py_get dados_etiquetados ''length'' (PNum 1.0) = PNum 10"
    by (simp add: py_get_def dados_etiquetados_def)
  moreover have "py_in ''ramp'' (py_get dados_etiquetados ''highway'' (PStr '''')) = Inr False"
    by (simp add: py_get_def dados_etiquetados_def)
  ultimately have "calcular_peso_aresta float_exemplo grafo_etiquetado 1 2 0 perfil_cadeirante
      (identificar_faixas_pedestres grafo_etiquetado)
      = Inr (peso_sete_passos float_exemplo dados_etiquetados 1 2 perfil_cadeirante
          (identificar_faixas_pedestres grafo_etiquetado) 10)"
    by (rule calcular_peso_aresta_sete_passos)
  moreover have "peso_sete_passos float_exemplo dados_etiquetados 1 2 perfil_cadeirante
          (identificar_faixas_pedestres grafo_etiquetado) 10 = 1260"
    by (simp add: avalia_fatores avalia_peso exemplos)
  ultimately show ?thesis by simp
qed

text \<open>
  With the five rules alone (no discount at a crossing, no surface and no width rule) the
  cost of the first edge of the line graph would be 10 for a profile that prefers
  crossings; the code returns 8, node 1 being a crossing.
\<close>

theorem calcular_peso_aresta_cinco_passos_counterexample:
  "calcular_peso_aresta sem_float grafo_linha 1 2 0 perfil_faixas
      (identificar_faixas_pedestres grafo_linha) = Inr 8
   \<and> peso_cinco_passos sem_float [''length'' \<mapsto> PNum 10] 1 2 perfil_faixas
        (identificar_faixas_pedestres grafo_linha) 10 = 10
   \<and> dados_aresta grafo_linha (1, 2, 0) = Some [''length'' \<mapsto> PNum 10]"
  by (simp add: avalia_peso avalia_fatores exemplos)

subsection \<open>Failures of the route computation\<close>

text \<open>
  C6 (as the code has it). \<open>calcular_rota\<close> never raises. When no path exists between
  the resolved nodes (\<open>NetworkXNoPath\<close>) it returns \<open>(None, None)\<close> and shows no
  message. When the origin or the destination cannot be resolved to a node, or any other
  step of the computation raises, it shows the message "Erro ao calcular rota:" with the
  text of the exception and returns the same \<open>(None, None)\<close>: the caller gets the empty
  result, not an exception of a kind of its own.
\<close>

theorem calcular_rota_falhas:
  "(\<forall>no_origem no_destino e.
       nearest_nodes lib G (snd origem) (fst origem) = Inr no_origem \<longrightarrow>
       nearest_nodes lib G (snd destino) (fst destino) = Inr no_destino \<longrightarrow>
       shortest_path lib G no_origem no_destino = Inl e \<longrightarrow> classe e = NetworkXNoPath \<longrightarrow>
       calcular_rota lib G origem destino = Inr ((None, None), []))
   \<and> (\<forall>e. nearest_nodes lib G (snd origem) (fst origem) = Inl e \<longrightarrow>
          classe e \<noteq> NetworkXNoPath \<longrightarrow>
          calcular_rota lib G origem destino = Inr ((None, None), [mensagem_erro_rota e]))
   \<and> (\<forall>no_origem e.
          nearest_nodes lib G (snd origem) (fst origem) = Inr no_origem \<longrightarrow>
          nearest_nodes lib G (snd destino) (fst destino) = Inl e \<longrightarrow>
          classe e \<noteq> NetworkXNoPath \<longrightarrow>
          calcular_rota lib G origem destino = Inr ((None, None), [mensagem_erro_rota e]))
   \<and> (\<forall>e. calcular_rota_corpo lib G origem destino = Inl e \<longrightarrow>
          classe e \<noteq> NetworkXNoPath \<longrightarrow>
          calcular_rota lib G origem destino = Inr ((None, None), [mensagem_erro_rota e]))
   \<and> \<not> isl (calcular_rota lib G origem destino)"
  by (auto simp: calcular_rota_def calcular_rota_corpo_def split: sum.splits)

theorem calcular_rota_falhas_witness:
  "calcular_rota bib_linha grafo_linha (0, 1) (0, 0) = Inr ((None, None), [])
   \<and> calcular_rota bib_vazia grafo_vazio (0, 0) (0, 1)
       = Inr ((None, None),
              [mensagem_erro_rota (Exc ValueError ''G must contain at least one node'')])"
proof -
  have "nearest_nodes bib_linha grafo_linha (snd (0, 1)) (fst (0, 1)) = Inr 4"
       "nearest_nodes bib_linha grafo_linha (snd (0, 0)) (fst (0, 0)) = Inr 1"
       "shortest_path bib_linha grafo_linha 4 1 = Inl (Exc NetworkXNoPath ''No path between nodes'')"
       "classe (Exc NetworkXNoPath ''No path between nodes'') = NetworkXNoPath"
    by (simp_all add: bib_linha_def)
  with calcular_rota_falhas[of bib_linha grafo_linha "(0, 1)" "(0, 0)"]
  have a: "calcular_rota bib_linha grafo_linha (0, 1) (0, 0) = Inr ((None, None), [])"
    by blast
  have "nearest_nodes bib_vazia grafo_vazio (snd (0, 0)) (fst (0, 0))
          = Inl (Exc ValueError ''G must contain at least one node'')"
       "classe (Exc ValueError ''G must contain at least one node'') \<noteq> NetworkXNoPath"
    by (simp_all add: bib_vazia_def)
  with calcular_rota_falhas[of bib_vazia grafo_vazio "(0, 0)" "(0, 1)"]
  have "calcular_rota bib_vazia grafo_vazio (0, 0) (0, 1)
       = Inr ((None, None),
              [mensagem_erro_rota (Exc ValueError ''G must contain at least one node'')])"
    by blast
  with a show ?thesis by simp
qed

text \<open>
  On the empty graph the node lookup raises, and \<open>calcular_rota\<close> returns normally.
\<close>

theorem calcular_rota_sem_no_counterexample:
  "nearest_nodes bib_vazia grafo_vazio (snd (0, 0)) (fst (0, 0))
     = Inl (Exc ValueError ''G must contain at least one node'')
   \<and> \<not> isl (calcular_rota bib_vazia grafo_vazio (0, 0) (0, 1))
   \<and> calcular_rota bib_vazia grafo_vazio (0, 0) (0, 1)
       = Inr ((None, None),
              [mensagem_erro_rota (Exc ValueError ''G must contain at least one node'')])"
  by (simp add: calcular_rota_def calcular_rota_corpo_def bib_vazia_def)

subsection \<open>A measurement that finds no path\<close>

lemma aquecer_sem_excecao:
  "(\<forall>n < k. \<not> isl (amb_calcular_rota amb (i + n) G origem destino [(''algoritmo'', PStr alg)])) \<Longrightarrow>
   aquecer amb G origem destino alg k i = None"
proof (induction k arbitrary: i)
  case 0
  then show ?case by simp
next
  case (Suc k)
  from Suc.prems[rule_format, of 0]
  obtain r where r: "amb_calcular_rota amb i G origem destino [(''algoritmo'', PStr alg)] = Inr r"
    by (cases "amb_calcular_rota amb i G origem destino [(''algoritmo'', PStr alg)]") auto
  have "\<forall>n < k. \<not> isl (amb_calcular_rota amb (Suc i + n) G origem destino [(''algoritmo'', PStr alg)])"
    using Suc.prems[rule_format, of "Suc n" for n] by auto
  from Suc.IH[OF this] r show ?case by simp
qed

lemma medir_laco_sem_caminho:
  "n < k \<Longrightarrow>
   (\<forall>m < n. \<exists>p x. amb_calcular_rota amb (warmup + (j + m)) G origem destino
                      [(''algoritmo'', PStr alg)] = Inr (Some p, x)) \<Longrightarrow>
   amb_calcular_rota amb (warmup + (j + n)) G origem destino [(''algoritmo'', PStr alg)]
      = Inr (None, y) \<Longrightarrow>
   medir_laco amb G origem destino alg warmup k j tempos df pf = LacoSemCaminho"
proof (induction n arbitrary: k j tempos df pf)
  case 0
  then obtain k' where "k = Suc k'" by (cases k) auto
  with 0 show ?case by (simp add: Let_def)
next
  case (Suc n)
  then obtain k' where k: "k = Suc k'" and nk: "n < k'" by (cases k) auto
  from Suc.prems(2)[rule_format, of 0]
  obtain p x where px: "amb_calcular_rota amb (warmup + j) G origem destino
                      [(''algoritmo'', PStr alg)] = Inr (Some p, x)" by auto
  have a: "\<forall>m < n. \<exists>p x. amb_calcular_rota amb (warmup + (Suc j + m)) G origem destino
                      [(''algoritmo'', PStr alg)] = Inr (Some p, x)"
    using Suc.prems(2)[rule_format, of "Suc m" for m] by auto
  have b: "amb_calcular_rota amb (warmup + (Suc j + n)) G origem destino [(''algoritmo'', PStr alg)]
      = Inr (None, y)"
    using Suc.prems(3) by simp
  from Suc.IH[OF nk a b] px k show ?case by (simp add: Let_def)
qed

lemma sucesso_medicao_falha: "\<not> sucesso (medicao_falha alg msg)"
  by (simp add: medicao_falha_def)

lemma executar_passo_invalido:
  "\<not> (sucesso (medir_algoritmo_completo (amb_dijkstra s) G (snd (sorteado_origem s))
                 (snd (sorteado_destino s)) ''dijkstra'' rep 3)
       \<and> sucesso (medir_algoritmo_completo (amb_astar s) G (snd (sorteado_origem s))
                 (snd (sorteado_destino s)) ''astar'' rep 3)) \<Longrightarrow>
   executar_passo G rep s st = st\<lparr>pares_invalidos := pares_invalidos st + 1\<rparr>"
  by (auto simp: executar_passo_def Let_def)

lemma executar_passo_resultados:
  "list_all ambas_com_sucesso (resultados st) \<Longrightarrow>
   list_all ambas_com_sucesso (resultados (executar_passo G rep s st))"
  by (auto simp: executar_passo_def Let_def ambas_com_sucesso_def)

lemma executar_laco_resultados:
  "executar_laco G num_testes rep ss st = Some st' \<Longrightarrow>
   list_all ambas_com_sucesso (resultados st) \<Longrightarrow>
   list_all ambas_com_sucesso (resultados st')"
proof (induction ss arbitrary: st)
  case Nil
  then show ?case by (auto split: if_splits)
next
  case (Cons s ss)
  show ?case
  proof (cases "pares_testados st < num_testes")
    case True
    with Cons.prems(1)
    have "executar_laco G num_testes rep ss (executar_passo G rep s st) = Some st'" by simp
    from Cons.IH[OF this executar_passo_resultados[OF Cons.prems(2)]] show ?thesis .
  next
    case False
    with Cons.prems show ?thesis by simp
  qed
qed

text \<open>
  C7. In a run of \<open>medir_algoritmo_completo\<close> that reaches a timed invocation which
  finds no path (both nodes resolved, no warm-up call raised, the timed invocations before
  it found a route), the measurement returned has its success flag false, the reason
  "Sem caminho", no timings, and every statistic, the distance, the point count and the
  exploration count zero. In the benchmark loop a pair one of whose two measurements is
  unsuccessful adds one to the invalid pairs and nothing to the results; every result the
  loop ever accepts has both measurements successful.
\<close>

theorem medir_sem_caminho:
  assumes "amb_nearest_nodes amb G (snd origem) (fst origem) = Inr no_origem"
      and "amb_nearest_nodes amb G (snd destino) (fst destino) = Inr no_destino"
      and "\<forall>i < warmup. \<not> isl (amb_calcular_rota amb i G origem destino [(''algoritmo'', PStr alg)])"
      and "n < repeticoes"
      and "\<forall>m < n. \<exists>p x. amb_calcular_rota amb (warmup + m) G origem destino
                           [(''algoritmo'', PStr alg)] = Inr (Some p, x)"
      and "amb_calcular_rota amb (warmup + n) G origem destino [(''algoritmo'', PStr alg)]
             = Inr (None, y)"
  shows "(let r = medir_algoritmo_completo amb G origem destino alg repeticoes warmup in
            \<not> sucesso r \<and> erro r = Some ''Sem caminho'' \<and> tempos_ms r = []
            \<and> tempo_medio_ms r = 0 \<and> tempo_mediano_ms r = 0 \<and> tempo_min_ms r = 0
            \<and> tempo_max_ms r = 0 \<and> desvio_padrao_ms r = 0 \<and> percentil_95_ms r = 0
            \<and> percentil_99_ms r = 0 \<and> distancia r = Some 0 \<and> num_pontos r = 0
            \<and> nos_explorados r = 0)
         \<and> (\<forall>(s::sorteio) (st::estado_benchmark) rep.
              \<not> (sucesso (medir_algoritmo_completo (amb_dijkstra s) G (snd (sorteado_origem s))
                            (snd (sorteado_destino s)) ''dijkstra'' rep 3)
                  \<and> sucesso (medir_algoritmo_completo (amb_astar s) G (snd (sorteado_origem s))
                            (snd (sorteado_destino s)) ''astar'' rep 3)) \<longrightarrow>
              executar_passo G rep s st = st\<lparr>pares_invalidos := pares_invalidos st + 1\<rparr>)
         \<and> (\<forall>num_testes rep ss (st::estado_benchmark) st'.
              executar_laco G num_testes rep ss st = Some st' \<longrightarrow>
              list_all ambas_com_sucesso (resultados st) \<longrightarrow>
              list_all ambas_com_sucesso (resultados st'))"
proof (intro conjI allI impI)
  have w: "aquecer amb G origem destino alg warmup 0 = None"
    using assms(3) by (intro aquecer_sem_excecao) simp
  have l: "medir_laco amb G origem destino alg warmup repeticoes 0 [] None None = LacoSemCaminho"
    using medir_laco_sem_caminho[of n repeticoes amb warmup 0 G origem destino alg y] assms(4-6)
    by simp
  have "medir_algoritmo_completo amb G origem destino alg repeticoes warmup
          = medicao_falha alg ''Sem caminho''"
    by (simp add: medir_algoritmo_completo_def assms(1,2) w l)
  then show "let r = medir_algoritmo_completo amb G origem destino alg repeticoes warmup in
            \<not> sucesso r \<and> erro r = Some ''Sem caminho'' \<and> tempos_ms r = []
            \<and> tempo_medio_ms r = 0 \<and> tempo_mediano_ms r = 0 \<and> tempo_min_ms r = 0
            \<and> tempo_max_ms r = 0 \<and> desvio_padrao_ms r = 0 \<and> percentil_95_ms r = 0
            \<and> percentil_99_ms r = 0 \<and> distancia r = Some 0 \<and> num_pontos r = 0
            \<and> nos_explorados r = 0"
    by (simp add: medicao_falha_def)
next
  fix s :: sorteio and st :: estado_benchmark and rep
  assume "\<not> (sucesso (medir_algoritmo_completo (amb_dijkstra s) G (snd (sorteado_origem s))
                            (snd (sorteado_destino s)) ''dijkstra'' rep 3)
                  \<and> sucesso (medir_algoritmo_completo (amb_astar s) G (snd (sorteado_origem s))
                            (snd (sorteado_destino s)) ''astar'' rep 3))"
  then show "executar_passo G rep s st = st\<lparr>pares_invalidos := pares_invalidos st + 1\<rparr>"
    by (rule executar_passo_invalido)
next
  fix num_testes rep ss and st :: estado_benchmark and st'
  assume "executar_laco G num_testes rep ss st = Some st'"
     and "list_all ambas_com_sucesso (resultados st)"
  then show "list_all ambas_com_sucesso (resultados st')"
    by (rule executar_laco_resultados)
qed

theorem medir_sem_caminho_witness:
  "\<not> sucesso (medir_algoritmo_completo amb_falha_tardia grafo_linha (0, 0) (0, 1) ''dijkstra'' 20 3)
   \<and> erro (medir_algoritmo_completo amb_falha_tardia grafo_linha (0, 0) (0, 1) ''dijkstra'' 20 3)
       = Some ''Sem caminho''
   \<and> tempos_ms (medir_algoritmo_completo amb_falha_tardia grafo_linha (0, 0) (0, 1) ''dijkstra'' 20 3)
       = []
   \<and> executar_passo grafo_linha 20 sorteio_exemplo estado_inicial
       = \<lparr>pares_testados = 0, pares_invalidos = 1, resultados = []\<rparr>"
proof -
  have h1: "amb_nearest_nodes amb_falha_tardia grafo_linha (snd (0, 0)) (fst (0, 0)) = Inr 1"
    and h2: "amb_nearest_nodes amb_falha_tardia grafo_linha (snd (0, 1)) (fst (0, 1)) = Inr 4"
    and h3: "\<forall>i < 3. \<not> isl (amb_calcular_rota amb_falha_tardia i grafo_linha (0, 0) (0, 1)
                              [(''algoritmo'', PStr ''dijkstra'')])"
    and h4: "(2::nat) < 20"
    and h5: "\<forall>m < 2. \<exists>p x. amb_calcular_rota amb_falha_tardia (3 + m) grafo_linha (0, 0) (0, 1)
                           [(''algoritmo'', PStr ''dijkstra'')] = Inr (Some p, x)"
    and h6: "amb_calcular_rota amb_falha_tardia (3 + 2) grafo_linha (0, 0) (0, 1)
                           [(''algoritmo'', PStr ''dijkstra'')] = Inr (None, None)"
    by (simp_all add: amb_falha_tardia_def bib_linha_def)
  note t = medir_sem_caminho[OF h1 h2 h3 h4 h5 h6]
  from t have a: "\<not> sucesso (medir_algoritmo_completo amb_falha_tardia grafo_linha (0, 0) (0, 1) ''dijkstra'' 20 3)"
    "erro (medir_algoritmo_completo amb_falha_tardia grafo_linha (0, 0) (0, 1) ''dijkstra'' 20 3)
       = Some ''Sem caminho''"
    "tempos_ms (medir_algoritmo_completo amb_falha_tardia grafo_linha (0, 0) (0, 1) ''dijkstra'' 20 3) = []"
    by (simp_all add: Let_def)
  from t have "\<not> (sucesso (medir_algoritmo_completo (amb_dijkstra sorteio_exemplo) grafo_linha
                     (snd (sorteado_origem sorteio_exemplo)) (snd (sorteado_destino sorteio_exemplo))
                     ''dijkstra'' 20 3)
                  \<and> sucesso (medir_algoritmo_completo (amb_astar sorteio_exemplo) grafo_linha
                     (snd (sorteado_origem sorteio_exemplo)) (snd (sorteado_destino sorteio_exemplo))
                     ''astar'' 20 3)) \<longrightarrow>
        executar_passo grafo_linha 20 sorteio_exemplo estado_inicial
          = estado_inicial\<lparr>pares_invalidos := pares_invalidos estado_inicial + 1\<rparr>"
    by blast
  moreover have "\<not> sucesso (medir_algoritmo_completo (amb_dijkstra sorteio_exemplo) grafo_linha
                     (snd (sorteado_origem sorteio_exemplo)) (snd (sorteado_destino sorteio_exemplo))
                     ''dijkstra'' 20 3)"
    using a(1) by (simp add: sorteio_exemplo_def)
  ultimately have "executar_passo grafo_linha 20 sorteio_exemplo estado_inicial
          = \<lparr>pares_testados = 0, pares_invalidos = 1, resultados = []\<rparr>"
    by (simp add: estado_inicial_def)
  with a show ?thesis by simp
qed

subsection \<open>The selector and the heuristic the benchmark expects\<close>

text \<open>
  C2. The benchmark calls \<open>calcular_rota(G, origem, destino, algoritmo=algoritmo)\<close> and
  imports \<open>heuristica_astar\<close> from route\_calculator. The \<open>calcular_rota\<close> of
  route\_calculator takes no selector, so the call is a \<open>TypeError\<close>, and the module
  binds no \<open>heuristica_astar\<close>, so the import is an \<open>ImportError\<close>: with them
  \<open>contar_nos_astar\<close> returns 0 for every pair and a measurement on the line graph ends
  in the failure record that carries the \<open>TypeError\<close>.
\<close>

theorem route_calculator_sem_seletor:
  "chamar_calcular_rota lib G origem destino [(''algoritmo'', PStr alg)]
     = Inl (Exc TypeError (''calcular_rota() got an unexpected keyword argument ''
                             @ [CHR 0x27] @ ''algoritmo'' @ [CHR 0x27]))
   \<and> importar_de_route_calculator ''heuristica_astar'' = Inl (erro_importacao ''heuristica_astar'')
   \<and> contar_nos_astar (amb_heuristica (ambiente_route_calculator lib relogio)) G s t = 0
   \<and> medir_algoritmo_completo (ambiente_route_calculator bib_linha real) grafo_linha
        (0, 0) (0, 1) ''dijkstra'' 20 3
      = medicao_falha ''dijkstra'' (''calcular_rota() got an unexpected keyword argument ''
                             @ [CHR 0x27] @ ''algoritmo'' @ [CHR 0x27])"
  by (simp add: chamar_calcular_rota_def importar_de_route_calculator_def erro_importacao_def
        nomes_route_calculator_def contar_nos_astar_def contar_nos_astar_busca_def
        ambiente_route_calculator_def medir_algoritmo_completo_def bib_linha_def
        eval_nat_numeral)



subsection \<open>Percentiles\<close>

lemma py_max_Max: "xs \<noteq> [] \<Longrightarrow> py_max xs = Max (set xs)"
proof (cases xs)
  case Nil
  assume "xs \<noteq> []"
  with Nil show ?thesis by simp
next
  case (Cons a list)
  with Max.set_eq_fold[of a list] show ?thesis by (simp add: py_max_def)
qed

lemma py_quantiles_nth:
  "k + 1 < n \<Longrightarrow> py_quantiles rd xs n ! k = quantil rd xs n (k + 1)"
  by (simp add: py_quantiles_def)

lemma quantil_interpola:
  assumes "0 < n" and "1 \<le> i * (length xs + 1) div n"
      and "i * (length xs + 1) div n \<le> length xs - 1"
  shows "quantil rd xs n i =
           rd (rd (rd (sort xs ! (i * (length xs + 1) div n - 1)
                         * (real n - real (i * (length xs + 1) mod n)))
                   + rd (sort xs ! (i * (length xs + 1) div n) * real (i * (length xs + 1) mod n)))
               / real n)"
proof -
  define a where "a = i * (length xs + 1)"
  have "real a = real (a div n) * real n + real (a mod n)"
    by (metis div_mult_mod_eq of_nat_add of_nat_mult)
  then have e: "real_of_int (int a - int (a div n * n)) = real (a mod n)"
    by simp
  have "int a = int (a div n * n) + int (a mod n)"
    by (metis div_mult_mod_eq of_nat_add)
  then have f: "real_of_int (int n - (int a - int (a div n * n))) = real n - real (a mod n)"
    by simp
  have c: "(if a div n < 1 then 1 else if a div n > length xs - 1 then length xs - 1 else a div n)
             = a div n"
    using assms by (simp add: a_def)
  show ?thesis
    unfolding quantil_def Let_def length_sort a_def[symmetric] c e f ..
qed

lemma percentil_95_interpola:
  assumes "20 \<le> length tempos"
  shows "percentil_95 rd tempos =
           rd (rd (rd (sort tempos ! (19 * (length tempos + 1) div 20 - 1)
                         * (20 - real (19 * (length tempos + 1) mod 20)))
                   + rd (sort tempos ! (19 * (length tempos + 1) div 20)
                         * real (19 * (length tempos + 1) mod 20)))
               / 20)"
proof -
  have "19 * (length tempos + 1) div 20 < length tempos"
    using assms by (simp add: div_less_iff_less_mult)
  then have "1 \<le> 19 * (length tempos + 1) div 20" "19 * (length tempos + 1) div 20 \<le> length tempos - 1"
    using assms by (simp_all add: less_eq_div_iff_mult_less_eq)
  from quantil_interpola[of 20 19 tempos rd, OF _ this] assms show ?thesis
    by (simp add: percentil_95_def py_quantiles_nth)
qed

lemma percentil_99_interpola:
  assumes "100 \<le> length tempos"
  shows "percentil_99 rd tempos =
           rd (rd (rd (sort tempos ! (99 * (length tempos + 1) div 100 - 1)
                         * (100 - real (99 * (length tempos + 1) mod 100)))
                   + rd (sort tempos ! (99 * (length tempos + 1) div 100)
                         * real (99 * (length tempos + 1) mod 100)))
               / 100)"
proof -
  have "99 * (length tempos + 1) div 100 < length tempos"
    using assms by (simp add: div_less_iff_less_mult)
  then have "1 \<le> 99 * (length tempos + 1) div 100" "99 * (length tempos + 1) div 100 \<le> length tempos - 1"
    using assms by (simp_all add: less_eq_div_iff_mult_less_eq)
  from quantil_interpola[of 100 99 tempos rd, OF _ this] assms show ?thesis
    by (simp add: percentil_99_def py_quantiles_nth)
qed

lemma sort_constante:
  assumes "\<forall>x \<in> set xs. x = (v::real)" and "k < length xs"
  shows "sort xs ! k = v"
proof -
  have "sort xs ! k \<in> set (sort xs)" using assms(2) by (intro nth_mem) simp
  with assms(1) show ?thesis by simp
qed

lemma percentil_95_iguais:
  assumes "length tempos = 20" and "\<forall>x \<in> set tempos. x = v"
  shows "percentil_95 rd tempos = rd (rd (rd (v * 1) + rd (v * 19)) / 20)"
proof -
  have "sort tempos ! 18 = v" "sort tempos ! 19 = v"
    using assms by (simp_all add: sort_constante)
  with percentil_95_interpola[of tempos rd] assms(1) show ?thesis by simp
qed

lemma binary64_faixa:
  assumes "2 ^ k \<le> x" and "x < 2 ^ Suc k" and "k \<le> 52"
  shows "binary64 x = real_of_int (arredonda_par (x * 2 ^ (52 - k))) / 2 ^ (52 - k)"
proof -
  have "(0::real) < 2 ^ k" by simp
  with assms(1) have pos: "0 < x" by linarith
  have "real k \<le> log 2 x"
    using assms(1) pos by (simp add: le_log_iff powr_realpow)
  moreover have "log 2 x < real k + 1"
    using assms(2) pos by (simp add: log_less_iff powr_realpow powr_add)
  ultimately have fl: "\<lfloor>log 2 x\<rfloor> = int k" by (simp add: floor_eq_iff)
  have "real_of_int (int k - 52) = - real (52 - k)" using assms(3) by simp
  then have u: "2 powr real_of_int (int k - 52) = 1 / 2 ^ (52 - k)"
    by (simp only: powr_minus powr_realpow zero_less_numeral) (simp add: field_simps)
  have ax: "\<bar>x\<bar> = x" using pos by simp
  show ?thesis
    unfolding binary64_def Let_def ax fl u using pos by simp
qed

lemma sort_tempos_1_a_20: "sort tempos_1_a_20 = tempos_1_a_20"
  by (simp add: tempos_1_a_20_def)


lemma medir_casos:
  "(\<exists>msg. medir_algoritmo_completo amb G origem destino alg repeticoes warmup
            = medicao_falha alg msg)
   \<or> (\<exists>tempos df n ex. tempos \<noteq> [] \<and>
         medir_algoritmo_completo amb G origem destino alg repeticoes warmup
           = \<lparr>algoritmo = alg, sucesso = True, tempos_ms = tempos,
              tempo_medio_ms = py_mean tempos,
              tempo_mediano_ms = py_median tempos,
              tempo_min_ms = py_min tempos,
              tempo_max_ms = py_max tempos,
              desvio_padrao_ms = (if length tempos > 1 then py_stdev tempos else 0),
              percentil_95_ms = percentil_95 (amb_arredonda amb) tempos,
              percentil_99_ms = percentil_99 (amb_arredonda amb) tempos,
              distancia = df, num_pontos = n, nos_explorados = ex, erro = None\<rparr>)"
proof (cases "amb_nearest_nodes amb G (snd origem) (fst origem)")
  case (Inl e)
  then have "\<exists>msg. medir_algoritmo_completo amb G origem destino alg repeticoes warmup
            = medicao_falha alg msg"
              by (auto simp: medir_algoritmo_completo_def)
            then show ?thesis by (rule disjI1)
next
  case n1: (Inr no_origem)
  show ?thesis
  proof (cases "amb_nearest_nodes amb G (snd destino) (fst destino)")
    case (Inl e)
    with n1 have "\<exists>msg. medir_algoritmo_completo amb G origem destino alg repeticoes warmup
            = medicao_falha alg msg"
              by (auto simp: medir_algoritmo_completo_def)
            then show ?thesis by (rule disjI1)
  next
    case n2: (Inr no_destino)
    show ?thesis
    proof (cases "aquecer amb G origem destino alg warmup 0")
      case (Some e)
      with n1 n2 have "\<exists>msg. medir_algoritmo_completo amb G origem destino alg repeticoes warmup
            = medicao_falha alg msg"
              by (auto simp: medir_algoritmo_completo_def)
            then show ?thesis by (rule disjI1)
    next
      case None
      show ?thesis
      proof (cases "medir_laco amb G origem destino alg warmup repeticoes 0 [] None None")
        case (LacoExcecao e)
        with n1 n2 None have "\<exists>msg. medir_algoritmo_completo amb G origem destino alg repeticoes warmup
            = medicao_falha alg msg"
              by (auto simp: medir_algoritmo_completo_def)
            then show ?thesis by (rule disjI1)
      next
        case LacoSemCaminho
        with n1 n2 None have "\<exists>msg. medir_algoritmo_completo amb G origem destino alg repeticoes warmup
            = medicao_falha alg msg"
              by (auto simp: medir_algoritmo_completo_def)
            then show ?thesis by (rule disjI1)
      next
        case (LacoCompleto tempos df pf)
        show ?thesis
        proof (cases "tempos = []")
          case True
          with n1 n2 None LacoCompleto have "\<exists>msg. medir_algoritmo_completo amb G origem destino alg repeticoes warmup
            = medicao_falha alg msg"
              by (auto simp: medir_algoritmo_completo_def)
            then show ?thesis by (rule disjI1)
        next
          case False
          show ?thesis
          proof (cases pf)
            case pn: None
            with n1 n2 None LacoCompleto False have "\<exists>msg. medir_algoritmo_completo amb G origem destino alg repeticoes warmup
            = medicao_falha alg msg"
              by (auto simp: medir_algoritmo_completo_def)
            then show ?thesis by (rule disjI1)
          next
            case (Some p)
            with n1 n2 None LacoCompleto False
            have "medir_algoritmo_completo amb G origem destino alg repeticoes warmup
              = \<lparr>algoritmo = alg, sucesso = True, tempos_ms = tempos,
              tempo_medio_ms = py_mean tempos,
              tempo_mediano_ms = py_median tempos,
              tempo_min_ms = py_min tempos,
              tempo_max_ms = py_max tempos,
              desvio_padrao_ms = (if length tempos > 1 then py_stdev tempos else 0),
              percentil_95_ms = percentil_95 (amb_arredonda amb) tempos,
              percentil_99_ms = percentil_99 (amb_arredonda amb) tempos,
              distancia = df, num_pontos = length p,
              nos_explorados = (if alg = ''dijkstra'' then contar_nos_dijkstra G no_origem no_destino
                  else contar_nos_astar (amb_heuristica amb) G no_origem no_destino),
              erro = None\<rparr>"
              by (simp add: medir_algoritmo_completo_def)
            with False show ?thesis by blast
          qed
        qed
      qed
    qed
  qed
qed

lemma medir_sucesso_percentis:
  assumes "sucesso (medir_algoritmo_completo amb G origem destino alg repeticoes warmup)"
  shows "percentil_95_ms (medir_algoritmo_completo amb G origem destino alg repeticoes warmup)
           = percentil_95 (amb_arredonda amb)
               (tempos_ms (medir_algoritmo_completo amb G origem destino alg repeticoes warmup))
         \<and> percentil_99_ms (medir_algoritmo_completo amb G origem destino alg repeticoes warmup)
           = percentil_99 (amb_arredonda amb)
               (tempos_ms (medir_algoritmo_completo amb G origem destino alg repeticoes warmup))
         \<and> tempos_ms (medir_algoritmo_completo amb G origem destino alg repeticoes warmup) \<noteq> []"
proof -
  from medir_casos[of amb G origem destino alg repeticoes warmup] show ?thesis
  proof (elim disjE exE conjE)
    fix msg
    assume "medir_algoritmo_completo amb G origem destino alg repeticoes warmup = medicao_falha alg msg"
    with assms show ?thesis by (simp add: sucesso_medicao_falha)
  next
    fix tempos df n ex
    assume "tempos \<noteq> []" and "medir_algoritmo_completo amb G origem destino alg repeticoes warmup
           = \<lparr>algoritmo = alg, sucesso = True, tempos_ms = tempos,
              tempo_medio_ms = py_mean tempos,
              tempo_mediano_ms = py_median tempos,
              tempo_min_ms = py_min tempos,
              tempo_max_ms = py_max tempos,
              desvio_padrao_ms = (if length tempos > 1 then py_stdev tempos else 0),
              percentil_95_ms = percentil_95 (amb_arredonda amb) tempos,
              percentil_99_ms = percentil_99 (amb_arredonda amb) tempos,
              distancia = df, num_pontos = n, nos_explorados = ex, erro = None\<rparr>"
    then show ?thesis by simp
  qed
qed

text \<open>
  C8 (as the code has it). The 95th percentile is the 19th of the 19 cut points of
  \<open>statistics.quantiles(tempos, n=20)\<close> when there are at least 20 timings, and the 99th
  the 99th cut point of \<open>n=100\<close> when there are at least 100; a cut point interpolates
  linearly between the two neighbouring values of the sorted sample, at position
  \<open>i (len + 1) / n\<close>, rounding after each of the two products, the sum and the division.
  With fewer timings each is the maximum. Twenty equal timings \<open>v\<close> have the rounded
  \<open>(v * 1 + v * 19) / 20\<close> as 95th percentile. These are the percentiles a successful
  measurement reports. All of this holds whatever the rounding is.
\<close>

theorem percentis_interpolados:
  "(20 \<le> length tempos \<longrightarrow>
      percentil_95 arredonda tempos =
        arredonda
          (arredonda
             (arredonda (sort tempos ! (19 * (length tempos + 1) div 20 - 1)
                           * (20 - real (19 * (length tempos + 1) mod 20)))
              + arredonda (sort tempos ! (19 * (length tempos + 1) div 20)
                           * real (19 * (length tempos + 1) mod 20)))
           / 20))
   \<and> (100 \<le> length tempos \<longrightarrow>
      percentil_99 arredonda tempos =
        arredonda
          (arredonda
             (arredonda (sort tempos ! (99 * (length tempos + 1) div 100 - 1)
                           * (100 - real (99 * (length tempos + 1) mod 100)))
              + arredonda (sort tempos ! (99 * (length tempos + 1) div 100)
                           * real (99 * (length tempos + 1) mod 100)))
           / 100))
   \<and> (tempos \<noteq> [] \<longrightarrow> length tempos < 20 \<longrightarrow> percentil_95 arredonda tempos = Max (set tempos))
   \<and> (tempos \<noteq> [] \<longrightarrow> length tempos < 100 \<longrightarrow> percentil_99 arredonda tempos = Max (set tempos))
   \<and> (length tempos = 20 \<longrightarrow> (\<forall>x \<in> set tempos. x = v) \<longrightarrow>
        percentil_95 arredonda tempos
          = arredonda (arredonda (arredonda (v * 1) + arredonda (v * 19)) / 20))
   \<and> (sucesso (medir_algoritmo_completo amb G origem destino alg repeticoes warmup) \<longrightarrow>
        tempos_ms (medir_algoritmo_completo amb G origem destino alg repeticoes warmup) \<noteq> []
        \<and> percentil_95_ms (medir_algoritmo_completo amb G origem destino alg repeticoes warmup)
            = percentil_95 (amb_arredonda amb)
                (tempos_ms (medir_algoritmo_completo amb G origem destino alg repeticoes warmup))
        \<and> percentil_99_ms (medir_algoritmo_completo amb G origem destino alg repeticoes warmup)
            = percentil_99 (amb_arredonda amb)
                (tempos_ms (medir_algoritmo_completo amb G origem destino alg repeticoes warmup)))"
  using percentil_95_interpola[of tempos arredonda] percentil_99_interpola[of tempos arredonda]
    percentil_95_iguais[of tempos v arredonda] py_max_Max[of tempos]
    medir_sucesso_percentis[of amb G origem destino alg repeticoes warmup]
  by (simp add: percentil_95_def percentil_99_def)

lemma medir_com_rota:
  "sucesso (medir_algoritmo_completo amb_com_rota grafo_linha (0, 0) (0, 1) ''dijkstra'' 2 1)
   \<and> tempos_ms (medir_algoritmo_completo amb_com_rota grafo_linha (0, 0) (0, 1) ''dijkstra'' 2 1)
       = [1, 1]"
  by (simp add: medir_algoritmo_completo_def amb_com_rota_def bib_linha_def eval_nat_numeral
        Let_def)

lemma binary64_exemplos:
  "binary64 7 = 7" "binary64 133 = 133" "binary64 140 = 140" "binary64 19 = 19"
  "binary64 380 = 380" "binary64 399 = 399" "binary64 693 = 693" "binary64 700 = 700"
  "binary64 (399 / 20) = 5615425785377587 / 281474976710656"
  using binary64_faixa[of 2 7] binary64_faixa[of 7 133] binary64_faixa[of 7 140]
    binary64_faixa[of 4 19] binary64_faixa[of 8 380] binary64_faixa[of 8 399]
    binary64_faixa[of 9 693] binary64_faixa[of 9 700] binary64_faixa[of 4 "399 / 20"]
  by (simp_all add: arredonda_par_def)

lemma binary64_quase_um:
  "binary64 (4503599627370503 / 4503599627370496) = 4503599627370503 / 4503599627370496"
  "binary64 (4503599627370503 / 4503599627370496 * 19) = 19 + 8 / 2 ^ 48"
  "binary64 (4503599627370503 / 4503599627370496 + (19 + 8 / 2 ^ 48)) = 20 + 8 / 2 ^ 48"
  "binary64 ((20 + 8 / 2 ^ 48) / 20) = 2251799813685251 / 2251799813685248"
  using binary64_faixa[of 0 "4503599627370503 / 4503599627370496"]
    binary64_faixa[of 4 "4503599627370503 / 4503599627370496 * 19"]
    binary64_faixa[of 4 "4503599627370503 / 4503599627370496 + (19 + 8 / 2 ^ 48)"]
    binary64_faixa[of 0 "(20 + 8 / 2 ^ 48) / 20"]
  by (simp_all add: arredonda_par_def)

theorem percentis_interpolados_witness:
  "percentil_95 binary64 tempos_1_a_20 = 5615425785377587 / 281474976710656
   \<and> percentil_95 binary64 tempos_iguais = 7
   \<and> percentil_95 binary64 [3, 1, 2] = 3
   \<and> percentil_99 binary64 tempos_1_a_20 = 20
   \<and> percentil_99 binary64 (replicate 100 7) = 7
   \<and> percentil_95_ms (medir_algoritmo_completo amb_com_rota grafo_linha (0, 0) (0, 1) ''dijkstra'' 2 1)
       = 1"
proof -
  have l20: "length tempos_1_a_20 = 20" "tempos_1_a_20 \<noteq> []" "length tempos_iguais = 20"
    and ig: "\<forall>x \<in> set tempos_iguais. x = 7"
    by (simp_all add: tempos_1_a_20_def tempos_iguais_def)
  have "percentil_95 binary64 tempos_1_a_20
          = binary64 (binary64 (binary64 (tempos_1_a_20 ! 18 * 1) + binary64 (tempos_1_a_20 ! 19 * 19))
                      / 20)"
    using percentis_interpolados[of tempos_1_a_20 binary64] l20
    by (simp add: sort_tempos_1_a_20)
  then have a: "percentil_95 binary64 tempos_1_a_20 = 5615425785377587 / 281474976710656"
    by (simp add: tempos_1_a_20_def binary64_exemplos)
  have "percentil_95 binary64 tempos_iguais
          = binary64 (binary64 (binary64 (7 * 1) + binary64 (7 * 19)) / 20)"
    using percentis_interpolados[of tempos_iguais binary64 7] l20 ig by blast
  then have b: "percentil_95 binary64 tempos_iguais = 7"
    by (simp add: binary64_exemplos)
  have c: "percentil_95 binary64 [3, 1, 2] = 3"
    using percentis_interpolados[of "[3, 1, 2]" binary64] by simp
  have d: "percentil_99 binary64 tempos_1_a_20 = 20"
    using percentis_interpolados[of tempos_1_a_20 binary64] l20 by (simp add: tempos_1_a_20_def)
  have "sort (replicate 100 (7::real)) ! 98 = 7" "sort (replicate 100 (7::real)) ! 99 = 7"
    by (simp_all add: sort_constante)
  with percentis_interpolados[of "replicate 100 7" binary64]
  have e: "percentil_99 binary64 (replicate 100 7) = 7"
    by (simp add: binary64_exemplos)
  have f: "percentil_95_ms (medir_algoritmo_completo amb_com_rota grafo_linha (0, 0) (0, 1) ''dijkstra'' 2 1)
       = 1"
    using percentis_interpolados[of "[]" binary64 0 amb_com_rota grafo_linha "(0, 0)" "(0, 1)"
            "''dijkstra''" 2 1]
      medir_com_rota
    by (simp add: percentil_95_def py_max_def)
  from a b c d e f show ?thesis by simp
qed

text \<open>
  Under the rounding of binary64 the 95th percentile of the timings 1, ..., 20 is the
  float nearest to 19.95, between the two largest timings: it is none of the timings, as
  the value at a rank would be. And twenty timings all equal to \<open>1 + 7 / 2 ^ 52\<close> have
  \<open>1 + 6 / 2 ^ 52\<close> as 95th percentile, not their common value: \<open>v * 19\<close> and the sum are
  both rounded down.
\<close>

theorem percentil_95_counterexample:
  "percentil_95 binary64 tempos_1_a_20 = 5615425785377587 / 281474976710656
   \<and> 5615425785377587 / 281474976710656 \<notin> set tempos_1_a_20
   \<and> length tempos_1_a_20 = 20
   \<and> percentil_95 binary64 tempos_quase_um = 2251799813685251 / 2251799813685248
   \<and> set tempos_quase_um = {4503599627370503 / 4503599627370496}
   \<and> length tempos_quase_um = 20"
proof -
  have "length tempos_1_a_20 = 20" by (simp add: tempos_1_a_20_def)
  with percentil_95_interpola[of tempos_1_a_20 binary64]
  have "percentil_95 binary64 tempos_1_a_20
          = binary64 (binary64 (binary64 (tempos_1_a_20 ! 18 * 1) + binary64 (tempos_1_a_20 ! 19 * 19))
                      / 20)"
    by (simp add: sort_tempos_1_a_20)
  then have a: "percentil_95 binary64 tempos_1_a_20 = 5615425785377587 / 281474976710656"
    by (simp add: tempos_1_a_20_def binary64_exemplos)
  have b: "5615425785377587 / 281474976710656 \<notin> set tempos_1_a_20"
    "length tempos_1_a_20 = 20"
    by (simp_all add: tempos_1_a_20_def)
  have "percentil_95 binary64 tempos_quase_um
          = binary64 (binary64 (binary64 (4503599627370503 / 4503599627370496 * 1)
                                 + binary64 (4503599627370503 / 4503599627370496 * 19)) / 20)"
    by (rule percentil_95_iguais) (simp_all add: tempos_quase_um_def)
  then have c: "percentil_95 binary64 tempos_quase_um = 2251799813685251 / 2251799813685248"
    by (simp only: mult_1_right binary64_quase_um)
  have d: "set tempos_quase_um = {4503599627370503 / 4503599627370496}"
    "length tempos_quase_um = 20"
    by (simp_all add: tempos_quase_um_def)
  from a b c d show ?thesis by simp
qed

subsection \<open>The exploration counts\<close>

















































































end
